theory Spec2Isabelle
  imports Complex_Main
begin

section \<open>Vectors\<close>

text \<open>
  The add-on computes with \<open>mathutils.Vector\<close>. Its components are modelled as real
  numbers, so the rounding of the floating-point operations is not part of the model.
  The operations below are the ones the source calls: \<open>+\<close>, \<open>-\<close>, \<open>*\<close> by a scalar,
  \<open>dot\<close>, \<open>cross\<close>, \<open>length\<close> and \<open>normalized\<close>. Normalising the zero vector has no
  effect (it stays the zero vector), as the library documents.
\<close>

datatype vec3 = Vector (vx: real) (vy: real) (vz: real)

datatype vec2 = Vector2 (px: real) (py: real)

definition vadd :: "vec3 \<Rightarrow> vec3 \<Rightarrow> vec3" where
  "vadd a b = Vector (vx a + vx b) (vy a + vy b) (vz a + vz b)"

definition vsub :: "vec3 \<Rightarrow> vec3 \<Rightarrow> vec3" where
  "vsub a b = Vector (vx a - vx b) (vy a - vy b) (vz a - vz b)"

definition vmul :: "vec3 \<Rightarrow> real \<Rightarrow> vec3" where
  "vmul a k = Vector (vx a * k) (vy a * k) (vz a * k)"

definition dot :: "vec3 \<Rightarrow> vec3 \<Rightarrow> real" where
  "dot a b = vx a * vx b + vy a * vy b + vz a * vz b"

definition cross :: "vec3 \<Rightarrow> vec3 \<Rightarrow> vec3" where
  "cross a b = Vector (vy a * vz b - vz a * vy b)
                      (vz a * vx b - vx a * vz b)
                      (vx a * vy b - vy a * vx b)"

definition vlength :: "vec3 \<Rightarrow> real" where
  "vlength a = sqrt (dot a a)"

definition normalized :: "vec3 \<Rightarrow> vec3" where
  "normalized a = (if vlength a = 0 then Vector 0 0 0 else vmul a (1 / vlength a))"

definition vadd2 :: "vec2 \<Rightarrow> vec2 \<Rightarrow> vec2" where
  "vadd2 a b = Vector2 (px a + px b) (py a + py b)"

section \<open>Geometry: \<open>make_solid_arrow\<close>\<close>

text \<open>
  The reference vector that is normalised into \<open>side\<close>: the cross product of the
  direction with world Y, or world X when that cross product is shorter than \<open>1e-6\<close>.
\<close>

definition side_reference :: "vec3 \<Rightarrow> vec3" where
  "side_reference dir_n =
     (let side = cross dir_n (Vector 0 1 0)
      in if vlength side < 1 / 1000000 then Vector 1 0 0 else side)"

definition arrow_side :: "vec3 \<Rightarrow> vec3" where
  "arrow_side dir_n = normalized (side_reference dir_n)"

definition arrow_side2 :: "vec3 \<Rightarrow> vec3" where
  "arrow_side2 dir_n = normalized (cross dir_n (arrow_side dir_n))"

definition make_solid_arrow :: "vec3 \<Rightarrow> vec3 \<Rightarrow> real \<Rightarrow> vec3 list \<times> vec3" where
  "make_solid_arrow base direction len =
     (let dir_n = normalized direction;
          tip = vadd base (vmul dir_n len);
          shaft_mid = vadd base (vmul dir_n (len * 0.75));
          side = arrow_side dir_n;
          side2 = arrow_side2 dir_n;
          head_w = len * 0.12;
          points = [
            base,
            shaft_mid,
            tip,
            vadd shaft_mid (vmul side head_w),
            tip,
            vsub shaft_mid (vmul side head_w),
            tip,
            vadd shaft_mid (vmul side2 head_w),
            tip,
            vsub shaft_mid (vmul side2 head_w)]
      in (points, tip))"

section \<open>Data model\<close>

datatype axis = AxisX | AxisY | AxisZ

fun axis_name :: "axis \<Rightarrow> string" where
  "axis_name AxisX = ''X''"
| "axis_name AxisY = ''Y''"
| "axis_name AxisZ = ''Z''"

type_synonym rgba = "real \<times> real \<times> real \<times> real"

text \<open>One entry of \<open>self._arrows\<close>: the dictionary with the keys
  \<open>axis\<close>, \<open>sign\<close>, \<open>points\<close>, \<open>tip\<close> and \<open>color\<close>.\<close>

record arrow =
  arrow_axis :: axis
  arrow_sign :: int
  arrow_points :: "vec3 list"
  arrow_tip :: vec3
  arrow_color :: rgba

text \<open>The operator instance: \<open>_handle\<close>, \<open>_timer\<close>, \<open>_arrows\<close>, \<open>_hover\<close> and \<open>_shader\<close>.
  A timer and a draw handler are opaque host objects, named here by a number.\<close>

record modal_operator =
  op_handle :: "nat option"
  op_timer :: "nat option"
  op_arrows :: "arrow list"
  op_hover :: "nat option"
  op_shader :: "string option"

text \<open>
  The host's context. \<open>matrix_world\<close> is given by its 3x3 part (three rows) and its
  translation. A \<open>region_view3d\<close> carries the action of the \<open>view_rotation\<close> quaternion
  on vectors and the two projections of \<open>view3d_utils\<close> for the current region and
  view; they are host functions and are taken as parameters. \<open>region_3d\<close> is \<open>None\<close>
  for a space that has no such attribute (any editor but the 3D viewport), and
  \<open>space_data\<close>, \<open>area\<close> and \<open>object\<close> are \<open>None\<close> where Python reads \<open>None\<close>.
  \<open>arrow_size\<close> is the preference value, and \<open>symmetrize_raises\<close> tells whether the
  call of \<open>bpy.ops.mesh.symmetrize\<close> with the given arguments raises.
\<close>

datatype mat3 = Matrix3 (row0: vec3) (row1: vec3) (row2: vec3)

record matrix =
  to_3x3 :: mat3
  translation :: vec3

record object =
  obj_type :: string
  matrix_world :: matrix

record region_view3d =
  view_rotation :: "vec3 \<Rightarrow> vec3"
  location_3d_to_region_2d :: "vec3 \<Rightarrow> vec2 option"
  region_2d_to_location_3d :: "vec2 \<Rightarrow> vec3 \<Rightarrow> vec3"

record space =
  region_3d :: "region_view3d option"

record area =
  area_type :: string

record bpy_context =
  object :: "object option"
  mode :: string
  area :: "area option"
  space_data :: "space option"
  arrow_size :: real
  symmetrize_raises :: "string \<Rightarrow> real \<Rightarrow> bool"

record event =
  ev_type :: string
  ev_value :: string
  ev_alt :: bool
  mouse_region_x :: int
  mouse_region_y :: int

text \<open>What the operator does to the host, in the order it does it.\<close>

datatype effect =
    ShaderFromBuiltin string
  | TimerAdd nat real
  | TimerRemove nat
  | DrawHandlerAdd nat
  | DrawHandlerRemove nat
  | ModalHandlerAdd
  | TagRedraw
  | Report string string
  | Symmetrize string real

datatype exn = AttributeError | IndexError | RuntimeError

datatype ret = RUNNING_MODAL | PASS_THROUGH | CANCELLED | FINISHED

type_synonym outcome = "(exn + ret) \<times> modal_operator \<times> effect list"

section \<open>Axis projector: \<open>update_arrows\<close>\<close>

definition mat3_mul :: "mat3 \<Rightarrow> vec3 \<Rightarrow> vec3" where
  "mat3_mul m v = Vector (dot (row0 m) v) (dot (row1 m) v) (dot (row2 m) v)"

fun axes :: "mat3 \<Rightarrow> axis \<Rightarrow> vec3" where
  "axes m AxisX = mat3_mul m (Vector 1 0 0)"
| "axes m AxisY = mat3_mul m (Vector 0 1 0)"
| "axes m AxisZ = mat3_mul m (Vector 0 0 1)"

fun colors :: "axis \<Rightarrow> rgba" where
  "colors AxisX = (1, 0.1, 0.1, 1)"
| "colors AxisY = (0.1, 1, 0.1, 1)"
| "colors AxisZ = (0.1, 0.5, 1, 1)"

definition dark_mul :: real where
  "dark_mul = 0.45"

definition sign_color :: "axis \<Rightarrow> int \<Rightarrow> rgba" where
  "sign_color ax sign =
     (if sign > 0 then colors ax
      else (case colors ax of (r, g, b, a) \<Rightarrow> (r * dark_mul, g * dark_mul, b * dark_mul, 1)))"

text \<open>Lines 216 to 219: the direction of one arrow, tilted when it is nearly parallel
  to the view direction.\<close>

definition adjust_direction :: "vec3 \<Rightarrow> vec3 \<Rightarrow> vec3" where
  "adjust_direction view_dir dir_ws =
     (let dot_val = \<bar>dot (normalized dir_ws) view_dir\<bar>
      in if dot_val > 0.96
         then (let tilt = vmul (normalized (cross view_dir dir_ws)) 0.1
               in normalized (vadd dir_ws tilt))
         else dir_ws)"

text \<open>The body of the loop for one axis and one sign: \<open>None\<close> is the \<open>continue\<close>.
  A vector is true in a condition whatever its components are, so \<open>not p_origin_2d\<close>
  holds exactly when the projection returned \<open>None\<close>.\<close>

definition arrow_for :: "region_view3d \<Rightarrow> real \<Rightarrow> vec3 \<Rightarrow> vec3 \<Rightarrow> mat3 \<Rightarrow> axis \<times> int \<Rightarrow> arrow option" where
  "arrow_for rv3d arrow_px origin view_dir m as =
     (case as of (ax, sign) \<Rightarrow>
       (let color = sign_color ax sign;
            dir_ws = adjust_direction view_dir (vmul (axes m ax) (real_of_int sign))
        in case location_3d_to_region_2d rv3d origin of
             None \<Rightarrow> None
           | Some p_origin_2d \<Rightarrow>
               (let offset_2d = vadd2 p_origin_2d (Vector2 arrow_px 0);
                    p_tip_ws = region_2d_to_location_3d rv3d offset_2d origin;
                    len = vlength (vsub p_tip_ws origin)
                in case make_solid_arrow origin dir_ws len of
                     (points, tip) \<Rightarrow>
                       Some \<lparr>arrow_axis = ax, arrow_sign = sign, arrow_points = points,
                             arrow_tip = tip, arrow_color = color\<rparr>)))"

text \<open>The order of the two nested loops: the keys of \<open>axes\<close> in insertion order, and
  for each the signs \<open>(1, -1)\<close>.\<close>

definition axis_signs :: "(axis \<times> int) list" where
  "axis_signs = List.product [AxisX, AxisY, AxisZ] [1, -1]"

definition update_arrows :: "bpy_context \<Rightarrow> modal_operator \<Rightarrow> exn + modal_operator" where
  "update_arrows c self =
     (case object c of
        None \<Rightarrow> Inr self
      | Some obj \<Rightarrow>
          (case space_data c of
             None \<Rightarrow> Inl AttributeError
           | Some sd \<Rightarrow>
               (case region_3d sd of
                  None \<Rightarrow> Inl AttributeError
                | Some rv3d \<Rightarrow>
                    (let arrow_px = arrow_size c;
                         origin = translation (matrix_world obj);
                         view_dir = normalized (view_rotation rv3d (Vector 0 0 (-1)))
                     in Inr (self\<lparr>op_arrows :=
                               List.map_filter
                                 (arrow_for rv3d arrow_px origin view_dir (to_3x3 (matrix_world obj)))
                                 axis_signs\<rparr>)))))"

section \<open>Interaction loop: \<open>modal\<close>, \<open>invoke\<close>, \<open>finish\<close>, \<open>draw_callback\<close>\<close>

definition tag_redraw :: "bpy_context \<Rightarrow> effect list \<Rightarrow> effect list" where
  "tag_redraw c effs = (case area c of None \<Rightarrow> effs | Some a \<Rightarrow> effs @ [TagRedraw])"

definition finish :: "bpy_context \<Rightarrow> modal_operator \<Rightarrow> effect list \<Rightarrow> effect list" where
  "finish c self effs =
     (let effs1 = (case op_timer self of None \<Rightarrow> effs | Some t \<Rightarrow> effs @ [TimerRemove t]);
          effs2 = (case op_handle self of None \<Rightarrow> effs1 | Some h \<Rightarrow> effs1 @ [DrawHandlerRemove h])
      in tag_redraw c effs2)"

definition tol :: real where
  "tol = 20"

definition tip_hit :: "region_view3d \<Rightarrow> int \<Rightarrow> int \<Rightarrow> arrow \<Rightarrow> bool" where
  "tip_hit rv3d mx my a =
     (case location_3d_to_region_2d rv3d (arrow_tip a) of
        None \<Rightarrow> False
      | Some tip_2d \<Rightarrow>
          (real_of_int mx - px tip_2d) ^ 2 + (real_of_int my - py tip_2d) ^ 2 \<le> tol ^ 2)"

text \<open>The spec's words for the same test, compared with \<open>tip_hit\<close> below: the projected
  tip lies within 20 pixels of the pointer.\<close>

definition pointer_distance :: "vec2 \<Rightarrow> int \<Rightarrow> int \<Rightarrow> real" where
  "pointer_distance p mx my = sqrt ((real_of_int mx - px p) ^ 2 + (real_of_int my - py p) ^ 2)"

definition within_radius :: "region_view3d \<Rightarrow> int \<Rightarrow> int \<Rightarrow> arrow \<Rightarrow> bool" where
  "within_radius rv3d mx my a =
     (case location_3d_to_region_2d rv3d (arrow_tip a) of
        None \<Rightarrow> False
      | Some p \<Rightarrow> pointer_distance p mx my \<le> 20)"

text \<open>The loop over \<open>enumerate(self._arrows)\<close> with its \<open>break\<close>; \<open>i\<close> is the index
  of the head of the list.\<close>

fun hit_test :: "region_view3d \<Rightarrow> int \<Rightarrow> int \<Rightarrow> nat \<Rightarrow> arrow list \<Rightarrow> nat option" where
  "hit_test rv3d mx my i [] = None"
| "hit_test rv3d mx my i (a # rest) =
     (if tip_hit rv3d mx my a then Some i else hit_test rv3d mx my (Suc i) rest)"

definition pass_through_types :: "string list" where
  "pass_through_types =
     [''MIDDLEMOUSE'', ''WHEELUPMOUSE'', ''WHEELDOWNMOUSE'', ''WHEELINMOUSE'', ''WHEELOUTMOUSE'']"

definition direction_token :: "arrow \<Rightarrow> string" where
  "direction_token a =
     (if arrow_sign a > 0 then ''POSITIVE'' else ''NEGATIVE'') @ ''_'' @ axis_name (arrow_axis a)"

definition threshold :: real where
  "threshold = 0.0001"

text \<open>Lines 256 to 261, entered when the event is a left press and \<open>_hover\<close> is \<open>i\<close>.\<close>

definition commit :: "bpy_context \<Rightarrow> nat \<Rightarrow> modal_operator \<Rightarrow> effect list \<Rightarrow> outcome" where
  "commit c i self effs =
     (if i < length (op_arrows self)
      then (let a = op_arrows self ! i;
                direction = direction_token a;
                effs1 = effs @ [Symmetrize direction threshold]
            in if symmetrize_raises c direction threshold
               then (Inl RuntimeError, self, effs1)
               else (Inr FINISHED, self, finish c self effs1))
      else (Inl IndexError, self, effs))"

text \<open>Lines 241 to 263: what \<open>modal\<close> does after the pass-through test.\<close>

definition handle_event :: "bpy_context \<Rightarrow> event \<Rightarrow> modal_operator \<Rightarrow> effect list \<Rightarrow> outcome" where
  "handle_event c e self effs =
     (if ev_type e = ''MOUSEMOVE''
      then (case space_data c of
              None \<Rightarrow> (Inl AttributeError, self, effs)
            | Some sd \<Rightarrow>
                (case region_3d sd of
                   None \<Rightarrow> (Inl AttributeError, self, effs)
                 | Some rv3d \<Rightarrow>
                     (Inr RUNNING_MODAL,
                      self\<lparr>op_hover :=
                        hit_test rv3d (mouse_region_x e) (mouse_region_y e) 0 (op_arrows self)\<rparr>,
                      effs)))
      else if ev_type e = ''RIGHTMOUSE'' \<or> ev_type e = ''ESC''
      then (Inr CANCELLED, self, finish c self effs)
      else if ev_type e = ''LEFTMOUSE'' \<and> ev_value e = ''PRESS''
      then (case op_hover self of
              None \<Rightarrow> (Inr RUNNING_MODAL, self, effs)
            | Some i \<Rightarrow> commit c i self effs)
      else (Inr RUNNING_MODAL, self, effs))"

definition modal :: "bpy_context \<Rightarrow> event \<Rightarrow> modal_operator \<Rightarrow> effect list \<Rightarrow> outcome" where
  "modal c e self effs =
     (let effs1 = tag_redraw c effs
      in case (if ev_type e = ''TIMER'' then update_arrows c self else Inr self) of
           Inl x \<Rightarrow> (Inl x, self, effs1)
         | Inr self1 \<Rightarrow>
             if ev_type e \<in> set pass_through_types \<or> (ev_type e = ''MOUSEMOVE'' \<and> ev_alt e)
             then (Inr PASS_THROUGH, self1, effs1)
             else handle_event c e self1 effs1)"

text \<open>A new timer or handler is named by the number of effects so far, so it differs
  from every one made before.\<close>

definition invoke :: "bpy_context \<Rightarrow> event \<Rightarrow> modal_operator \<Rightarrow> effect list \<Rightarrow> outcome" where
  "invoke c e self effs =
     (if (case object c of None \<Rightarrow> True | Some obj \<Rightarrow> obj_type obj \<noteq> ''MESH'')
          \<or> mode c \<noteq> ''EDIT_MESH''
      then (Inr CANCELLED, self, effs @ [Report ''WARNING'' ''Edit Mode mesh required''])
      else
        (let self1 = self\<lparr>op_shader := Some ''UNIFORM_COLOR''\<rparr>;
             effs1 = effs @ [ShaderFromBuiltin ''UNIFORM_COLOR'']
         in case update_arrows c self1 of
              Inl x \<Rightarrow> (Inl x, self1, effs1)
            | Inr self2 \<Rightarrow>
                (let t = length effs1;
                     self3 = self2\<lparr>op_timer := Some t\<rparr>;
                     effs2 = effs1 @ [TimerAdd t 0.25]
                 in case area c of
                      None \<Rightarrow> (Inl AttributeError, self3, effs2)
                    | Some a \<Rightarrow>
                        if area_type a = ''VIEW_3D''
                        then (let h = length effs2
                              in (Inr RUNNING_MODAL, self3\<lparr>op_handle := Some h\<rparr>,
                                  effs2 @ [DrawHandlerAdd h, ModalHandlerAdd]))
                        else (Inr CANCELLED, self3,
                              effs2 @ [Report ''WARNING'' ''View3D area required'']))))"

text \<open>What \<open>draw_callback\<close> draws: for each arrow its colour (yellow when hovered) and
  its polyline.\<close>

definition draw_callback :: "modal_operator \<Rightarrow> (rgba \<times> vec3 list) list" where
  "draw_callback self =
     map (\<lambda>(i, a). (if Some i = op_hover self then (1, 1, 0, 1) else arrow_color a, arrow_points a))
         (enumerate 0 (op_arrows self))"

section \<open>A modal session\<close>

text \<open>
  The host's side of a session: it creates the operator and calls \<open>invoke\<close>; while the
  operator answers \<open>RUNNING_MODAL\<close> or \<open>PASS_THROUGH\<close> it hands each further event,
  with the context of that moment, to \<open>modal\<close>; it stops at \<open>CANCELLED\<close>, at
  \<open>FINISHED\<close> and at an exception. \<open>_arrows\<close> is a list of the class, so a new
  operator starts with whatever the list holds.
\<close>

definition new_operator :: "arrow list \<Rightarrow> modal_operator" where
  "new_operator arrows0 =
     \<lparr>op_handle = None, op_timer = None, op_arrows = arrows0, op_hover = None, op_shader = None\<rparr>"

fun run_modal :: "(bpy_context \<times> event) list \<Rightarrow> modal_operator \<Rightarrow> effect list \<Rightarrow> outcome" where
  "run_modal [] self effs = (Inr RUNNING_MODAL, self, effs)"
| "run_modal ((c, e) # rest) self effs =
     (case modal c e self effs of
        (r, self1, effs1) \<Rightarrow>
          if r = Inr RUNNING_MODAL \<or> r = Inr PASS_THROUGH
          then run_modal rest self1 effs1
          else (r, self1, effs1))"

definition session :: "arrow list \<Rightarrow> bpy_context \<Rightarrow> event \<Rightarrow> (bpy_context \<times> event) list \<Rightarrow> outcome" where
  "session arrows0 c e evs =
     (case invoke c e (new_operator arrows0) [] of
        (r, self1, effs1) \<Rightarrow>
          if r = Inr RUNNING_MODAL then run_modal evs self1 effs1 else (r, self1, effs1))"

definition timer_effects :: "effect list \<Rightarrow> effect list" where
  "timer_effects effs =
     filter (\<lambda>x. case x of TimerAdd t k \<Rightarrow> True | TimerRemove t \<Rightarrow> True | _ \<Rightarrow> False) effs"

definition handler_effects :: "effect list \<Rightarrow> effect list" where
  "handler_effects effs =
     filter (\<lambda>x. case x of DrawHandlerAdd h \<Rightarrow> True | DrawHandlerRemove h \<Rightarrow> True | _ \<Rightarrow> False) effs"

definition symmetrize_effects :: "effect list \<Rightarrow> effect list" where
  "symmetrize_effects effs =
     filter (\<lambda>x. case x of Symmetrize d k \<Rightarrow> True | _ \<Rightarrow> False) effs"

section \<open>A concrete scene\<close>

text \<open>
  A mesh object at the world origin with the identity transform, seen from the top: the
  view looks down the negative Z axis, the projection is orthographic with 80 pixels
  to one world unit, and the origin falls on the pixel \<open>(400, 300)\<close>. In
  \<open>hidden_view\<close> no point projects onto the region (the object is behind the viewer).
\<close>

definition identity_object :: object where
  "identity_object =
     \<lparr>obj_type = ''MESH'',
      matrix_world = \<lparr>to_3x3 = Matrix3 (Vector 1 0 0) (Vector 0 1 0) (Vector 0 0 1),
                      translation = Vector 0 0 0\<rparr>\<rparr>"

definition top_view :: region_view3d where
  "top_view =
     \<lparr>view_rotation = (\<lambda>v. v),
      location_3d_to_region_2d = (\<lambda>p. Some (Vector2 (400 + 80 * vx p) (300 + 80 * vy p))),
      region_2d_to_location_3d = (\<lambda>p d. Vector ((px p - 400) / 80) ((py p - 300) / 80) (vz d))\<rparr>"

definition hidden_view :: region_view3d where
  "hidden_view = top_view\<lparr>location_3d_to_region_2d := (\<lambda>p. None)\<rparr>"

definition scene :: "string \<Rightarrow> region_view3d option \<Rightarrow> bool \<Rightarrow> bpy_context" where
  "scene area_ty rv raises =
     \<lparr>object = Some identity_object, mode = ''EDIT_MESH'',
      area = Some \<lparr>area_type = area_ty\<rparr>,
      space_data = Some \<lparr>region_3d = rv\<rparr>,
      arrow_size = 80,
      symmetrize_raises = (\<lambda>d k. raises)\<rparr>"

definition mk_event :: "string \<Rightarrow> string \<Rightarrow> int \<Rightarrow> int \<Rightarrow> event" where
  "mk_event ty val x y =
     \<lparr>ev_type = ty, ev_value = val, ev_alt = False, mouse_region_x = x, mouse_region_y = y\<rparr>"

text \<open>The arrows of that scene, as the refresh computes them.\<close>

definition top_arrows :: "arrow list" where
  "top_arrows =
     List.map_filter
       (arrow_for top_view 80 (Vector 0 0 0) (Vector 0 0 (-1))
          (Matrix3 (Vector 1 0 0) (Vector 0 1 0) (Vector 0 0 1)))
       axis_signs"

definition running_operator :: "arrow list \<Rightarrow> nat option \<Rightarrow> modal_operator" where
  "running_operator arrows hover =
     \<lparr>op_handle = Some 2, op_timer = Some 1, op_arrows = arrows, op_hover = hover,
      op_shader = Some ''UNIFORM_COLOR''\<rparr>"

section \<open>Properties of the vector operations\<close>

lemma dot_self_nonneg: "0 \<le> dot a a"
  by (simp add: dot_def)

lemma vlength_nonneg: "0 \<le> vlength a"
  by (simp add: vlength_def dot_self_nonneg)

lemma vlength_sq: "vlength a * vlength a = dot a a"
  by (simp add: vlength_def dot_self_nonneg)

lemma vlength_vmul: "vlength (vmul a k) = vlength a * \<bar>k\<bar>"
proof -
  have "dot (vmul a k) (vmul a k) = dot a a * (k * k)"
    by (simp add: dot_def vmul_def algebra_simps)
  then have "vlength (vmul a k) = sqrt (dot a a) * sqrt (k * k)"
    by (simp add: vlength_def real_sqrt_mult)
  then show ?thesis
    by (simp add: vlength_def)
qed

lemma vlength_normalized: "vlength a \<noteq> 0 \<Longrightarrow> vlength (normalized a) = 1"
proof -
  assume nz: "vlength a \<noteq> 0"
  have pos: "0 < vlength a"
    using nz vlength_nonneg [of a] by linarith
  have "vlength (normalized a) = vlength a * \<bar>1 / vlength a\<bar>"
    using nz by (simp add: normalized_def vlength_vmul)
  also have "\<dots> = 1"
    using pos by simp
  finally show ?thesis .
qed

lemma vlength_unit_x: "vlength (Vector 1 0 0) = 1"
  by (simp add: vlength_def dot_def)

lemma normalized_nonzero: "vlength a \<noteq> 0 \<Longrightarrow> normalized a = vmul a (1 / vlength a)"
  by (simp add: normalized_def)

lemma normalized_unit_x: "normalized (Vector 1 0 0) = Vector 1 0 0"
  by (simp add: normalized_def vlength_def dot_def vmul_def)

lemma normalized_view: "normalized (Vector 0 0 (-1)) = Vector 0 0 (-1)"
  by (simp add: normalized_def vlength_def dot_def vmul_def)

lemma dot_vadd_left: "dot (vadd a b) c = dot a c + dot b c"
  by (simp add: dot_def vadd_def algebra_simps)

lemma dot_vadd_right: "dot c (vadd a b) = dot c a + dot c b"
  by (simp add: dot_def vadd_def algebra_simps)

lemma dot_vmul_left: "dot (vmul a k) b = k * dot a b"
  by (simp add: dot_def vmul_def algebra_simps)

lemma dot_vmul_right: "dot b (vmul a k) = k * dot b a"
  by (simp add: dot_def vmul_def algebra_simps)

lemma dot_commute: "dot a b = dot b a"
  by (simp add: dot_def mult.commute)

lemma dot_cross_left: "dot (cross v d) v = 0"
  by (simp add: dot_def cross_def algebra_simps)

lemma dot_cross_right: "dot (cross v d) d = 0"
  by (simp add: dot_def cross_def algebra_simps)

lemma vsub_vadd_cancel: "vsub (vadd m w) m = w"
  by (cases m, cases w) (simp add: vsub_def vadd_def)

lemma vlength_vsub_vadd: "vlength (vsub (vsub m w) m) = vlength w"
  by (cases m, cases w) (simp add: vsub_def vlength_def dot_def)

section \<open>Properties of the arrow builder and of the tilt\<close>

lemma vlength_side_reference: "1 / 1000000 \<le> vlength (side_reference d)"
  by (simp add: side_reference_def Let_def vlength_unit_x)

lemma vlength_arrow_side: "vlength (arrow_side d) = 1"
proof -
  have "vlength (side_reference d) \<noteq> 0"
    using vlength_side_reference [of d] by linarith
  then show ?thesis
    by (simp add: arrow_side_def vlength_normalized)
qed

lemma make_solid_arrow_points:
  "make_solid_arrow base d len =
     ([base,
       vadd base (vmul (normalized d) (0.75 * len)),
       vadd base (vmul (normalized d) len),
       vadd (vadd base (vmul (normalized d) (0.75 * len))) (vmul (arrow_side (normalized d)) (0.12 * len)),
       vadd base (vmul (normalized d) len),
       vsub (vadd base (vmul (normalized d) (0.75 * len))) (vmul (arrow_side (normalized d)) (0.12 * len)),
       vadd base (vmul (normalized d) len),
       vadd (vadd base (vmul (normalized d) (0.75 * len))) (vmul (arrow_side2 (normalized d)) (0.12 * len)),
       vadd base (vmul (normalized d) len),
       vsub (vadd base (vmul (normalized d) (0.75 * len))) (vmul (arrow_side2 (normalized d)) (0.12 * len))],
      vadd base (vmul (normalized d) len))"
  by (simp add: make_solid_arrow_def Let_def mult.commute)

lemma vlength_zero_vector: "vlength (Vector 0 0 0) = 0"
  by (simp add: vlength_def dot_def)

lemma normalized_zero: "normalized (Vector 0 0 0) = Vector 0 0 0"
  by (simp add: normalized_def vlength_zero_vector)

lemma cross_zero_left: "cross (Vector 0 0 0) b = Vector 0 0 0"
  by (simp add: cross_def)

lemma arrow_side2_zero: "arrow_side2 (Vector 0 0 0) = Vector 0 0 0"
  by (simp add: arrow_side2_def cross_zero_left normalized_zero)

lemma dot_cross_cross: "dot (cross a b) (cross a b) = dot a a * dot b b - (dot a b) ^ 2"
  by (simp add: dot_def cross_def power2_eq_square algebra_simps)

lemma dot_normalized_self: "vlength a \<noteq> 0 \<Longrightarrow> dot (normalized a) (normalized a) = 1"
  using vlength_normalized [of a] vlength_sq [of "normalized a"] by simp

lemma dot_normalized_left: "dot (normalized a) b = (if vlength a = 0 then 0 else dot a b / vlength a)"
  by (simp add: normalized_def dot_vmul_left) (simp add: dot_def)

lemma dot_arrow_side_self: "dot (arrow_side d) (arrow_side d) = 1"
  using vlength_arrow_side [of d] vlength_sq [of "arrow_side d"] by simp

lemma arrow_side_explicit:
  "arrow_side dir_n =
     normalized (if vlength (cross dir_n (Vector 0 1 0)) < 1 / 1000000 then Vector 1 0 0
                 else cross dir_n (Vector 0 1 0))"
  by (simp add: arrow_side_def side_reference_def Let_def)

text \<open>
  For a direction that is not the zero vector, the vector normalised into \<open>side2\<close> is
  at least half a unit long: the normalised direction and \<open>side\<close> are unit vectors, and
  they are perpendicular or, where world X stands in, nearly so.
\<close>

lemma side2_reference_square:
  assumes u: "dot dir_n dir_n = 1"
  shows "1 / 4 \<le> dot (cross dir_n (arrow_side dir_n)) (cross dir_n (arrow_side dir_n))"
proof -
  let ?c0 = "cross dir_n (Vector 0 1 0)"
  have lag: "dot (cross dir_n (arrow_side dir_n)) (cross dir_n (arrow_side dir_n))
             = 1 - (dot dir_n (arrow_side dir_n)) ^ 2"
    by (simp add: dot_cross_cross u dot_arrow_side_self)
  show ?thesis
  proof (cases "vlength ?c0 < 1 / 1000000")
    case True
    then have s: "arrow_side dir_n = Vector 1 0 0"
      by (simp add: arrow_side_explicit normalized_unit_x)
    have "vlength ?c0 * vlength ?c0 < (1 / 1000000) * (1 / 1000000)"
      using True vlength_nonneg [of ?c0] by (intro mult_strict_mono') auto
    then have q: "dot ?c0 ?c0 < 1 / 1000000000000"
      by (simp add: vlength_sq)
    have "dot ?c0 ?c0 = 1 - (vy dir_n) ^ 2"
      by (simp add: dot_cross_cross u) (simp add: dot_def)
    with q have y: "1 - 1 / 1000000000000 < (vy dir_n) ^ 2"
      by simp
    have "(vx dir_n) ^ 2 + (vy dir_n) ^ 2 + (vz dir_n) ^ 2 = 1"
      using u by (simp add: dot_def power2_eq_square)
    moreover have "0 \<le> (vz dir_n) ^ 2" by simp
    ultimately have "(vx dir_n) ^ 2 < 1 / 1000000000000"
      using y by linarith
    moreover have "dot dir_n (arrow_side dir_n) = vx dir_n"
      by (simp add: s dot_def)
    ultimately show ?thesis
      unfolding lag by simp
  next
    case False
    then have nz: "vlength ?c0 \<noteq> 0"
      by auto
    have "arrow_side dir_n = vmul ?c0 (1 / vlength ?c0)"
      using False nz by (simp add: arrow_side_explicit normalized_nonzero)
    then have "dot dir_n (arrow_side dir_n) = 0"
      by (simp add: dot_vmul_right dot_commute [of dir_n ?c0] dot_cross_left)
    then show ?thesis
      unfolding lag by simp
  qed
qed

lemma side2_reference_length:
  assumes "vlength direction \<noteq> 0"
  shows "1 / 2 \<le> vlength (cross (normalized direction) (arrow_side (normalized direction)))"
proof -
  have "dot (normalized direction) (normalized direction) = 1"
    using assms by (rule dot_normalized_self)
  then have "(1 / 2) ^ 2
      \<le> dot (cross (normalized direction) (arrow_side (normalized direction)))
            (cross (normalized direction) (arrow_side (normalized direction)))"
    using side2_reference_square [of "normalized direction"] by (simp add: power2_eq_square)
  then show ?thesis
    unfolding vlength_def by (rule real_le_rsqrt)
qed

lemma vlength_arrow_side2:
  "vlength direction \<noteq> 0 \<Longrightarrow> vlength (arrow_side2 (normalized direction)) = 1"
proof -
  assume "vlength direction \<noteq> 0"
  then have "vlength (cross (normalized direction) (arrow_side (normalized direction))) \<noteq> 0"
    using side2_reference_length [of direction] by linarith
  then show ?thesis
    unfolding arrow_side2_def by (rule vlength_normalized)
qed

lemma arrow_side2_perpendicular:
  "dot (arrow_side2 dir_n) dir_n = 0 \<and> dot (arrow_side2 dir_n) (arrow_side dir_n) = 0"
  by (simp add: arrow_side2_def dot_normalized_left dot_cross_left dot_cross_right)

text \<open>
  Where the view direction and the axis direction are not exactly parallel, the tilt
  does what it is meant to do: the adjusted direction is a unit vector and is less
  parallel to the view direction than the direction it replaces.
\<close>

lemma tilt_reduces_parallelism:
  assumes c: "vlength (cross v d) \<noteq> 0"
    and g: "\<bar>dot (normalized d) v\<bar> > 0.96"
  shows "vlength (adjust_direction v d) = 1
     \<and> \<bar>dot (adjust_direction v d) v\<bar> < \<bar>dot (normalized d) v\<bar>"
proof -
  let ?t = "vmul (normalized (cross v d)) 0.1"
  let ?w = "vadd d ?t"
  have adj: "adjust_direction v d = normalized ?w"
    using g by (simp add: adjust_direction_def Let_def)
  have dnz: "vlength d \<noteq> 0"
  proof
    assume "vlength d = 0"
    then have "normalized d = Vector 0 0 0" by (simp add: normalized_def)
    then have "dot (normalized d) v = 0" by (simp add: dot_def)
    with g show False by simp
  qed
  have Lpos: "0 < vlength d"
    using dnz vlength_nonneg [of d] by linarith
  have nc: "vlength (normalized (cross v d)) = 1"
    using c by (rule vlength_normalized)
  have tt: "dot ?t ?t = 0.01"
  proof -
    have "dot ?t ?t = 0.01 * dot (normalized (cross v d)) (normalized (cross v d))"
      by (simp add: dot_vmul_left dot_vmul_right)
    also have "dot (normalized (cross v d)) (normalized (cross v d)) = 1"
      using nc vlength_sq [of "normalized (cross v d)"] by simp
    finally show ?thesis by simp
  qed
  have tv: "dot ?t v = 0"
    using c by (simp add: normalized_nonzero dot_vmul_left dot_cross_left)
  have td: "dot ?t d = 0"
    using c by (simp add: normalized_nonzero dot_vmul_left dot_cross_right)
  have ww: "dot ?w ?w = dot d d + 0.01"
    using tt td by (simp add: dot_vadd_left dot_vadd_right dot_commute [of d ?t])
  have wv: "dot ?w v = dot d v"
    using tv by (simp add: dot_vadd_left)
  have dd: "0 < dot d d"
    using Lpos vlength_sq [of d] by (metis mult_pos_pos)
  have lt: "vlength d < vlength ?w"
    unfolding vlength_def ww using dd by simp
  then have wnz: "vlength ?w \<noteq> 0"
    using Lpos by linarith
  have unit: "vlength (adjust_direction v d) = 1"
    unfolding adj using wnz by (rule vlength_normalized)
  have a1: "dot (adjust_direction v d) v = dot d v / vlength ?w"
    unfolding adj normalized_nonzero [OF wnz] by (simp add: dot_vmul_left wv)
  have a2: "dot (normalized d) v = dot d v / vlength d"
    unfolding normalized_nonzero [OF dnz] by (simp add: dot_vmul_left)
  have nz: "0 < \<bar>dot d v\<bar>"
    using g a2 by (cases "dot d v = 0") auto
  have "\<bar>dot d v\<bar> / vlength ?w < \<bar>dot d v\<bar> / vlength d"
    using nz lt Lpos by (simp add: frac_less2)
  moreover have "\<bar>dot (adjust_direction v d) v\<bar> = \<bar>dot d v\<bar> / vlength ?w"
    using a1 Lpos lt by (simp add: abs_divide)
  moreover have "\<bar>dot (normalized d) v\<bar> = \<bar>dot d v\<bar> / vlength d"
    using a2 Lpos by (simp add: abs_divide)
  ultimately show ?thesis
    using unit by simp
qed

lemma adjust_x: "adjust_direction (Vector 0 0 (-1)) (Vector 1 0 0) = Vector 1 0 0"
  by (simp add: adjust_direction_def Let_def normalized_unit_x dot_def)

section \<open>Properties of the refresh\<close>

lemma arrow_for_None:
  "location_3d_to_region_2d rv3d origin = None \<Longrightarrow> arrow_for rv3d k origin vd m as = None"
  by (simp add: arrow_for_def Let_def split: prod.splits)

lemma arrow_for_Some:
  "location_3d_to_region_2d rv3d origin = Some p \<Longrightarrow>
   \<exists>a. arrow_for rv3d k origin vd m (ax, sg) = Some a \<and> arrow_axis a = ax \<and> arrow_sign a = sg"
  by (simp add: arrow_for_def Let_def split: prod.splits)

lemma arrow_for_tip:
  "location_3d_to_region_2d rv3d origin = Some p \<Longrightarrow>
   \<exists>a. arrow_for rv3d k origin vd m (ax, sg) = Some a \<and> arrow_axis a = ax \<and> arrow_sign a = sg
     \<and> arrow_tip a =
         vadd origin
           (vmul (normalized (adjust_direction vd (vmul (axes m ax) (real_of_int sg))))
              (vlength (vsub (region_2d_to_location_3d rv3d (vadd2 p (Vector2 k 0)) origin) origin)))"
  by (simp add: arrow_for_def Let_def make_solid_arrow_def split: prod.splits)

lemma refresh_hidden:
  "location_3d_to_region_2d rv3d origin = None \<Longrightarrow>
   List.map_filter (arrow_for rv3d k origin vd m) xs = []"
  by (induction xs) (simp_all add: List.map_filter_simps arrow_for_None)

lemma refresh_visible:
  "location_3d_to_region_2d rv3d origin = Some p \<Longrightarrow>
   map (\<lambda>a. (arrow_axis a, arrow_sign a)) (List.map_filter (arrow_for rv3d k origin vd m) xs) = xs"
proof (induction xs)
  case Nil
  then show ?case by (simp add: List.map_filter_simps)
next
  case (Cons x xs)
  obtain ax sg where x: "x = (ax, sg)" by (cases x)
  from arrow_for_Some [OF Cons.prems, of k vd m ax sg]
  obtain a where "arrow_for rv3d k origin vd m (ax, sg) = Some a" "arrow_axis a = ax" "arrow_sign a = sg"
    by blast
  with Cons x show ?case by (simp add: List.map_filter_simps)
qed

lemma axis_signs_eq:
  "axis_signs = [(AxisX, 1), (AxisX, -1), (AxisY, 1), (AxisY, -1), (AxisZ, 1), (AxisZ, -1)]"
  by (simp add: axis_signs_def)

lemma update_arrows_refresh:
  "object c = Some obj \<Longrightarrow> space_data c = Some sd \<Longrightarrow> region_3d sd = Some rv3d \<Longrightarrow>
   update_arrows c self =
     Inr (self\<lparr>op_arrows :=
            List.map_filter
              (arrow_for rv3d (arrow_size c) (translation (matrix_world obj))
                 (normalized (view_rotation rv3d (Vector 0 0 (-1)))) (to_3x3 (matrix_world obj)))
              axis_signs\<rparr>)"
  by (simp add: update_arrows_def Let_def)

lemma update_arrows_keeps:
  "update_arrows c self = Inr self1 \<Longrightarrow>
   op_timer self1 = op_timer self \<and> op_handle self1 = op_handle self \<and> op_hover self1 = op_hover self"
  by (auto simp add: update_arrows_def Let_def split: option.splits)

section \<open>Properties of the hit test\<close>

lemma tip_hit_within_radius: "tip_hit rv3d mx my a = within_radius rv3d mx my a"
proof (cases "location_3d_to_region_2d rv3d (arrow_tip a)")
  case None
  then show ?thesis by (simp add: tip_hit_def within_radius_def)
next
  case (Some p)
  let ?q = "(real_of_int mx - px p) ^ 2 + (real_of_int my - py p) ^ 2"
  have "(?q \<le> 20 ^ 2) = (sqrt ?q \<le> sqrt (20 ^ 2))"
    by (simp only: real_sqrt_le_iff)
  also have "sqrt ((20::real) ^ 2) = 20"
    by simp
  finally show ?thesis
    using Some by (simp add: tip_hit_def within_radius_def pointer_distance_def tol_def)
qed

lemma hit_test_None: "(hit_test rv3d mx my i xs = None) = (\<forall>a \<in> set xs. \<not> tip_hit rv3d mx my a)"
  by (induction xs arbitrary: i) auto

lemma hit_test_Some:
  "hit_test rv3d mx my i xs = Some k \<Longrightarrow>
   i \<le> k \<and> k - i < length xs \<and> tip_hit rv3d mx my (xs ! (k - i))
   \<and> (\<forall>j < k - i. \<not> tip_hit rv3d mx my (xs ! j))"
proof (induction xs arbitrary: i)
  case Nil
  then show ?case by simp
next
  case (Cons a xs)
  show ?case
  proof (cases "tip_hit rv3d mx my a")
    case True
    with Cons.prems show ?thesis by simp
  next
    case False
    with Cons.prems have "hit_test rv3d mx my (Suc i) xs = Some k" by simp
    from Cons.IH [OF this]
    have ih: "Suc i \<le> k" "k - Suc i < length xs" "tip_hit rv3d mx my (xs ! (k - Suc i))"
      "\<forall>j < k - Suc i. \<not> tip_hit rv3d mx my (xs ! j)"
      by auto
    have e: "k - i = Suc (k - Suc i)" using ih(1) by arith
    have "\<forall>j < k - i. \<not> tip_hit rv3d mx my ((a # xs) ! j)"
    proof (intro allI impI)
      fix j assume "j < k - i"
      then show "\<not> tip_hit rv3d mx my ((a # xs) ! j)"
        using False ih(4) e by (cases j) auto
    qed
    with ih e show ?thesis by simp
  qed
qed

section \<open>Properties of the event handler\<close>

lemma modal_mousemove:
  "ev_type e = ''MOUSEMOVE'' \<Longrightarrow> \<not> ev_alt e \<Longrightarrow> space_data c = Some sd \<Longrightarrow> region_3d sd = Some rv3d \<Longrightarrow>
   modal c e self effs =
     (Inr RUNNING_MODAL,
      self\<lparr>op_hover := hit_test rv3d (mouse_region_x e) (mouse_region_y e) 0 (op_arrows self)\<rparr>,
      tag_redraw c effs)"
  by (simp add: modal_def Let_def pass_through_types_def handle_event_def)

lemma modal_click_idle:
  "ev_type e = ''LEFTMOUSE'' \<Longrightarrow> ev_value e = ''PRESS'' \<Longrightarrow> op_hover self = None \<Longrightarrow>
   modal c e self effs = (Inr RUNNING_MODAL, self, tag_redraw c effs)"
  by (simp add: modal_def Let_def pass_through_types_def handle_event_def)

lemma modal_click_commit:
  "ev_type e = ''LEFTMOUSE'' \<Longrightarrow> ev_value e = ''PRESS'' \<Longrightarrow> op_hover self = Some i \<Longrightarrow>
   modal c e self effs = commit c i self (tag_redraw c effs)"
  by (simp add: modal_def Let_def pass_through_types_def handle_event_def)

lemma modal_cancel:
  "ev_type e = ''RIGHTMOUSE'' \<or> ev_type e = ''ESC'' \<Longrightarrow>
   modal c e self effs = (Inr CANCELLED, self, finish c self (tag_redraw c effs))"
  by (auto simp add: modal_def Let_def pass_through_types_def handle_event_def)

lemma modal_timer:
  "ev_type e = ''TIMER'' \<Longrightarrow> update_arrows c self = Inr self1 \<Longrightarrow>
   modal c e self effs = (Inr RUNNING_MODAL, self1, tag_redraw c effs)"
  by (simp add: modal_def Let_def pass_through_types_def handle_event_def)

lemma direction_token_cases:
  "direction_token a =
     (case (arrow_axis a, arrow_sign a > 0) of
        (AxisX, True) \<Rightarrow> ''POSITIVE_X'' | (AxisX, False) \<Rightarrow> ''NEGATIVE_X''
      | (AxisY, True) \<Rightarrow> ''POSITIVE_Y'' | (AxisY, False) \<Rightarrow> ''NEGATIVE_Y''
      | (AxisZ, True) \<Rightarrow> ''POSITIVE_Z'' | (AxisZ, False) \<Rightarrow> ''NEGATIVE_Z'')"
  by (cases "arrow_axis a") (simp_all add: direction_token_def)

lemma symmetrize_effects_append:
  "symmetrize_effects (xs @ ys) = symmetrize_effects xs @ symmetrize_effects ys"
  by (simp add: symmetrize_effects_def)

lemma symmetrize_effects_tag_redraw: "symmetrize_effects (tag_redraw c effs) = symmetrize_effects effs"
  by (simp add: tag_redraw_def symmetrize_effects_def split: option.splits)

lemma symmetrize_effects_finish: "symmetrize_effects (finish c self effs) = symmetrize_effects effs"
  by (simp add: finish_def Let_def tag_redraw_def symmetrize_effects_def split: option.splits)

lemma timer_effects_append: "timer_effects (xs @ ys) = timer_effects xs @ timer_effects ys"
  by (simp add: timer_effects_def)

lemma handler_effects_append: "handler_effects (xs @ ys) = handler_effects xs @ handler_effects ys"
  by (simp add: handler_effects_def)

lemma effects_tag_redraw:
  "timer_effects (tag_redraw c effs) = timer_effects effs"
  "handler_effects (tag_redraw c effs) = handler_effects effs"
  by (simp_all add: tag_redraw_def timer_effects_def handler_effects_def split: option.splits)

lemma effects_finish:
  "timer_effects (finish c self effs)
     = timer_effects effs @ (case op_timer self of None \<Rightarrow> [] | Some t \<Rightarrow> [TimerRemove t])"
  "handler_effects (finish c self effs)
     = handler_effects effs @ (case op_handle self of None \<Rightarrow> [] | Some h \<Rightarrow> [DrawHandlerRemove h])"
  by (simp_all add: finish_def Let_def tag_redraw_def timer_effects_def handler_effects_def
        split: option.splits)

lemma commit_resources:
  "commit c i self effs = (r, self1, effs1) \<Longrightarrow>
   self1 = self
   \<and> (if r = Inr CANCELLED \<or> r = Inr FINISHED
       then timer_effects effs1
              = timer_effects effs @ (case op_timer self of None \<Rightarrow> [] | Some t \<Rightarrow> [TimerRemove t])
            \<and> handler_effects effs1
              = handler_effects effs
                @ (case op_handle self of None \<Rightarrow> [] | Some h \<Rightarrow> [DrawHandlerRemove h])
       else timer_effects effs1 = timer_effects effs \<and> handler_effects effs1 = handler_effects effs)"
  by (auto simp add: commit_def Let_def effects_finish timer_effects_append handler_effects_append
        split: if_splits)
     (simp_all add: timer_effects_def handler_effects_def)

lemma handle_event_resources:
  "handle_event c e self effs = (r, self1, effs1) \<Longrightarrow>
   op_timer self1 = op_timer self \<and> op_handle self1 = op_handle self
   \<and> (if r = Inr CANCELLED \<or> r = Inr FINISHED
       then timer_effects effs1
              = timer_effects effs @ (case op_timer self of None \<Rightarrow> [] | Some t \<Rightarrow> [TimerRemove t])
            \<and> handler_effects effs1
              = handler_effects effs
                @ (case op_handle self of None \<Rightarrow> [] | Some h \<Rightarrow> [DrawHandlerRemove h])
       else timer_effects effs1 = timer_effects effs \<and> handler_effects effs1 = handler_effects effs)"
proof -
  assume h: "handle_event c e self effs = (r, self1, effs1)"
  consider (move) "ev_type e = ''MOUSEMOVE''"
    | (cancel) "ev_type e \<noteq> ''MOUSEMOVE''" "ev_type e = ''RIGHTMOUSE'' \<or> ev_type e = ''ESC''"
    | (click) i where "ev_type e \<noteq> ''MOUSEMOVE''" "\<not> (ev_type e = ''RIGHTMOUSE'' \<or> ev_type e = ''ESC'')"
        "ev_type e = ''LEFTMOUSE'' \<and> ev_value e = ''PRESS''" "op_hover self = Some i"
    | (idle) "ev_type e \<noteq> ''MOUSEMOVE''" "\<not> (ev_type e = ''RIGHTMOUSE'' \<or> ev_type e = ''ESC'')"
        "\<not> (ev_type e = ''LEFTMOUSE'' \<and> ev_value e = ''PRESS'') \<or> op_hover self = None"
    by (cases "op_hover self") auto
  then show ?thesis
  proof cases
    case move
    with h show ?thesis
      by (auto simp add: handle_event_def split: option.splits)
  next
    case cancel
    with h show ?thesis
      by (auto simp add: handle_event_def effects_finish)
  next
    case click
    with h have "commit c i self effs = (r, self1, effs1)"
      by (simp add: handle_event_def)
    from commit_resources [OF this] show ?thesis
      by simp
  next
    case idle
    with h show ?thesis
      by (auto simp add: handle_event_def split: option.splits)
  qed
qed

lemma modal_resources:
  "modal c e self effs = (r, self1, effs1) \<Longrightarrow>
   op_timer self1 = op_timer self \<and> op_handle self1 = op_handle self
   \<and> (if r = Inr CANCELLED \<or> r = Inr FINISHED
       then timer_effects effs1
              = timer_effects effs @ (case op_timer self of None \<Rightarrow> [] | Some t \<Rightarrow> [TimerRemove t])
            \<and> handler_effects effs1
              = handler_effects effs
                @ (case op_handle self of None \<Rightarrow> [] | Some h \<Rightarrow> [DrawHandlerRemove h])
       else timer_effects effs1 = timer_effects effs \<and> handler_effects effs1 = handler_effects effs)"
proof -
  assume h: "modal c e self effs = (r, self1, effs1)"
  let ?u = "if ev_type e = ''TIMER'' then update_arrows c self else Inr self"
  show ?thesis
  proof (cases ?u)
    case (Inl x)
    with h show ?thesis
      by (auto simp add: modal_def Let_def effects_tag_redraw)
  next
    case (Inr s)
    then have k: "op_timer s = op_timer self \<and> op_handle s = op_handle self"
      using update_arrows_keeps [of c self s] by (auto split: if_splits)
    show ?thesis
    proof (cases "ev_type e \<in> set pass_through_types \<or> (ev_type e = ''MOUSEMOVE'' \<and> ev_alt e)")
      case True
      with h Inr k show ?thesis
        by (auto simp add: modal_def Let_def effects_tag_redraw)
    next
      case False
      with h Inr have "handle_event c e s (tag_redraw c effs) = (r, self1, effs1)"
        by (simp add: modal_def Let_def)
      from handle_event_resources [OF this] k show ?thesis
        by (simp add: effects_tag_redraw)
    qed
  qed
qed

lemma run_modal_resources:
  "op_timer self = Some t \<Longrightarrow> op_handle self = Some h \<Longrightarrow>
   run_modal evs self effs = (Inr r, self1, effs1) \<Longrightarrow> r = CANCELLED \<or> r = FINISHED \<Longrightarrow>
   timer_effects effs1 = timer_effects effs @ [TimerRemove t]
   \<and> handler_effects effs1 = handler_effects effs @ [DrawHandlerRemove h]"
proof (induction evs arbitrary: self effs)
  case Nil
  then show ?case by auto
next
  case (Cons ce evs)
  obtain c e where ce: "ce = (c, e)" by (cases ce)
  obtain r2 s2 f2 where m: "modal c e self effs = (r2, s2, f2)" by (cases "modal c e self effs")
  note res = modal_resources [OF m]
  show ?case
  proof (cases "r2 = Inr RUNNING_MODAL \<or> r2 = Inr PASS_THROUGH")
    case True
    with Cons.prems ce m have run: "run_modal evs s2 f2 = (Inr r, self1, effs1)"
      by simp
    from res Cons.prems have a: "op_timer s2 = Some t" "op_handle s2 = Some h"
      by simp_all
    from True res have b: "timer_effects f2 = timer_effects effs" "handler_effects f2 = handler_effects effs"
      by auto
    from Cons.IH [OF a run Cons.prems(4)] b show ?thesis
      by simp
  next
    case False
    with Cons.prems ce m have "r2 = Inr r" "f2 = effs1"
      by simp_all
    with res Cons.prems show ?thesis
      by auto
  qed
qed

section \<open>Properties of the entry\<close>

lemma invoke_precondition_failure:
  "(case object c of None \<Rightarrow> True | Some obj \<Rightarrow> obj_type obj \<noteq> ''MESH'') \<or> mode c \<noteq> ''EDIT_MESH'' \<Longrightarrow>
   invoke c e self effs = (Inr CANCELLED, self, effs @ [Report ''WARNING'' ''Edit Mode mesh required''])"
  by (simp add: invoke_def)

lemma invoke_running:
  "invoke c e (new_operator arrows0) [] = (Inr RUNNING_MODAL, self1, effs1) \<Longrightarrow>
   \<exists>t h. op_timer self1 = Some t \<and> op_handle self1 = Some h
     \<and> timer_effects effs1 = [TimerAdd t 0.25] \<and> handler_effects effs1 = [DrawHandlerAdd h]"
  by (auto simp add: invoke_def Let_def timer_effects_def handler_effects_def
        split: if_splits sum.splits option.splits)

section \<open>The concrete scene, step by step\<close>

lemma top_first_arrow:
  "\<exists>a. arrow_for top_view 80 (Vector 0 0 0) (Vector 0 0 (-1))
          (Matrix3 (Vector 1 0 0) (Vector 0 1 0) (Vector 0 0 1)) (AxisX, 1) = Some a
       \<and> arrow_axis a = AxisX \<and> arrow_sign a = 1 \<and> arrow_tip a = Vector 1 0 0"
proof -
  have p: "location_3d_to_region_2d top_view (Vector 0 0 0) = Some (Vector2 400 300)"
    by (simp add: top_view_def)
  have d: "vmul (axes (Matrix3 (Vector 1 0 0) (Vector 0 1 0) (Vector 0 0 1)) AxisX) (real_of_int 1)
           = Vector 1 0 0"
    by (simp add: mat3_mul_def dot_def vmul_def)
  have l: "vsub (region_2d_to_location_3d top_view (vadd2 (Vector2 400 300) (Vector2 80 0)) (Vector 0 0 0))
             (Vector 0 0 0) = Vector 1 0 0"
    by (simp add: top_view_def vadd2_def vsub_def)
  have t: "vadd (Vector 0 0 0) (vmul (Vector 1 0 0) (vlength (Vector 1 0 0))) = Vector 1 0 0"
    by (simp add: vlength_unit_x vmul_def vadd_def)
  from arrow_for_tip [OF p, of 80 "Vector 0 0 (-1)" "Matrix3 (Vector 1 0 0) (Vector 0 1 0) (Vector 0 0 1)" AxisX 1]
  show ?thesis
    by (simp only: d l adjust_x normalized_unit_x t)
qed

lemma top_arrows_head:
  "\<exists>a rest. top_arrows = a # rest \<and> length rest = 5
     \<and> arrow_axis a = AxisX \<and> arrow_sign a = 1 \<and> arrow_tip a = Vector 1 0 0"
proof -
  let ?f = "arrow_for top_view 80 (Vector 0 0 0) (Vector 0 0 (-1))
          (Matrix3 (Vector 1 0 0) (Vector 0 1 0) (Vector 0 0 1))"
  from top_first_arrow obtain a where a: "?f (AxisX, 1) = Some a"
    "arrow_axis a = AxisX" "arrow_sign a = 1" "arrow_tip a = Vector 1 0 0"
    by blast
  have p: "location_3d_to_region_2d top_view (Vector 0 0 0) = Some (Vector2 400 300)"
    by (simp add: top_view_def)
  let ?rest = "List.map_filter ?f [(AxisX, -1), (AxisY, 1), (AxisY, -1), (AxisZ, 1), (AxisZ, -1)]"
  have "map (\<lambda>a. (arrow_axis a, arrow_sign a)) ?rest
        = [(AxisX, -1), (AxisY, 1), (AxisY, -1), (AxisZ, 1), (AxisZ, -1)]"
    using p by (rule refresh_visible)
  then have "length (map (\<lambda>a. (arrow_axis a, arrow_sign a)) ?rest) = 5"
    by simp
  then have l: "length ?rest = 5"
    by simp
  have "top_arrows = a # ?rest"
    unfolding top_arrows_def axis_signs_eq using a(1) by (simp add: List.map_filter_simps)
  with a l show ?thesis by blast
qed

lemma length_top: "length top_arrows = 6"
proof -
  from top_arrows_head obtain a rest where a: "top_arrows = a # rest" "length rest = 5"
    by blast
  show ?thesis
    unfolding a(1) by (simp add: a(2))
qed

lemma token_top: "direction_token (top_arrows ! 0) = ''POSITIVE_X''"
proof -
  from top_arrows_head obtain a rest where a: "top_arrows = a # rest"
    "arrow_axis a = AxisX" "arrow_sign a = 1"
    by blast
  show ?thesis
    unfolding a(1) by (simp add: direction_token_def a(2) a(3))
qed

lemma hit_top: "hit_test top_view 480 300 0 top_arrows = Some 0"
proof -
  from top_arrows_head obtain a rest where a: "top_arrows = a # rest" "arrow_tip a = Vector 1 0 0"
    by blast
  have "tip_hit top_view 480 300 a"
    by (simp add: tip_hit_def a(2) top_view_def tol_def)
  then show ?thesis
    by (simp add: a(1))
qed

lemma update_top:
  "update_arrows (scene ''VIEW_3D'' (Some top_view) r) self = Inr (self\<lparr>op_arrows := top_arrows\<rparr>)"
proof -
  have a: "object (scene ''VIEW_3D'' (Some top_view) r) = Some identity_object"
    by (simp add: scene_def)
  have b: "space_data (scene ''VIEW_3D'' (Some top_view) r) = Some \<lparr>region_3d = Some top_view\<rparr>"
    by (simp add: scene_def)
  have c: "region_3d \<lparr>region_3d = Some top_view\<rparr> = Some top_view"
    by simp
  have v: "view_rotation top_view (Vector 0 0 (-1)) = Vector 0 0 (-1)"
    by (simp add: top_view_def)
  show ?thesis
    unfolding update_arrows_refresh [OF a b c] top_arrows_def v normalized_view
    by (simp add: scene_def identity_object_def)
qed

lemma update_hidden:
  "update_arrows (scene ''VIEW_3D'' (Some hidden_view) r) self = Inr (self\<lparr>op_arrows := []\<rparr>)"
proof -
  have a: "object (scene ''VIEW_3D'' (Some hidden_view) r) = Some identity_object"
    by (simp add: scene_def)
  have b: "space_data (scene ''VIEW_3D'' (Some hidden_view) r)
           = Some \<lparr>region_3d = Some hidden_view\<rparr>"
    by (simp add: scene_def)
  have c: "region_3d \<lparr>region_3d = Some hidden_view\<rparr> = Some hidden_view"
    by simp
  have d: "location_3d_to_region_2d hidden_view (translation (matrix_world identity_object)) = None"
    by (simp add: hidden_view_def)
  show ?thesis
    by (simp add: update_arrows_refresh [OF a b c] refresh_hidden [OF d])
qed

lemma space_top: "space_data (scene ty (Some rv) r) = Some \<lparr>region_3d = Some rv\<rparr>"
  by (simp add: scene_def)

lemma tag_redraw_scene: "tag_redraw (scene ty rv r) effs = effs @ [TagRedraw]"
  by (simp add: tag_redraw_def scene_def)

lemma invoke_top:
  "invoke (scene ''VIEW_3D'' (Some top_view) r) e (new_operator []) [] =
     (Inr RUNNING_MODAL, running_operator top_arrows None,
      [ShaderFromBuiltin ''UNIFORM_COLOR'', TimerAdd 1 0.25, DrawHandlerAdd 2, ModalHandlerAdd])"
  unfolding invoke_def update_top
  by (simp add: scene_def identity_object_def new_operator_def running_operator_def Let_def)

lemma move_top:
  "modal (scene ''VIEW_3D'' (Some top_view) r) (mk_event ''MOUSEMOVE'' ''NOTHING'' 480 300)
     (running_operator top_arrows hv) effs
   = (Inr RUNNING_MODAL, running_operator top_arrows (Some 0), effs @ [TagRedraw])"
proof -
  have "modal (scene ''VIEW_3D'' (Some top_view) r) (mk_event ''MOUSEMOVE'' ''NOTHING'' 480 300)
     (running_operator top_arrows hv) effs
   = (Inr RUNNING_MODAL,
      (running_operator top_arrows hv)\<lparr>op_hover :=
         hit_test top_view (mouse_region_x (mk_event ''MOUSEMOVE'' ''NOTHING'' 480 300))
           (mouse_region_y (mk_event ''MOUSEMOVE'' ''NOTHING'' 480 300)) 0
           (op_arrows (running_operator top_arrows hv))\<rparr>,
      tag_redraw (scene ''VIEW_3D'' (Some top_view) r) effs)"
    by (rule modal_mousemove [where sd = "\<lparr>region_3d = Some top_view\<rparr>"])
       (simp_all add: mk_event_def space_top)
  also have "mouse_region_x (mk_event ''MOUSEMOVE'' ''NOTHING'' 480 300) = 480"
    by (simp add: mk_event_def)
  also have "mouse_region_y (mk_event ''MOUSEMOVE'' ''NOTHING'' 480 300) = 300"
    by (simp add: mk_event_def)
  also have "op_arrows (running_operator top_arrows hv) = top_arrows"
    by (simp add: running_operator_def)
  finally show ?thesis
    by (simp add: hit_top tag_redraw_scene running_operator_def)
qed

lemma click_top:
  "modal (scene ''VIEW_3D'' (Some top_view) r) (mk_event ''LEFTMOUSE'' ''PRESS'' 480 300)
     (running_operator top_arrows (Some 0)) effs
   = (if r
      then (Inl RuntimeError, running_operator top_arrows (Some 0),
            effs @ [TagRedraw, Symmetrize ''POSITIVE_X'' 0.0001])
      else (Inr FINISHED, running_operator top_arrows (Some 0),
            effs @ [TagRedraw, Symmetrize ''POSITIVE_X'' 0.0001, TimerRemove 1,
                    DrawHandlerRemove 2, TagRedraw]))"
proof -
  have "modal (scene ''VIEW_3D'' (Some top_view) r) (mk_event ''LEFTMOUSE'' ''PRESS'' 480 300)
     (running_operator top_arrows (Some 0)) effs
    = commit (scene ''VIEW_3D'' (Some top_view) r) 0 (running_operator top_arrows (Some 0))
        (tag_redraw (scene ''VIEW_3D'' (Some top_view) r) effs)"
    by (rule modal_click_commit) (simp_all add: mk_event_def running_operator_def)
  also have "\<dots> = (if r
      then (Inl RuntimeError, running_operator top_arrows (Some 0),
            effs @ [TagRedraw, Symmetrize ''POSITIVE_X'' 0.0001])
      else (Inr FINISHED, running_operator top_arrows (Some 0),
            effs @ [TagRedraw, Symmetrize ''POSITIVE_X'' 0.0001, TimerRemove 1,
                    DrawHandlerRemove 2, TagRedraw]))"
    unfolding commit_def tag_redraw_scene
    by (simp add: running_operator_def length_top token_top Let_def finish_def tag_redraw_scene
          threshold_def)
       (simp add: scene_def)
  finally show ?thesis .
qed

lemma timer_hidden:
  "modal (scene ''VIEW_3D'' (Some hidden_view) r) (mk_event ''TIMER'' ''NOTHING'' 480 300)
     (running_operator top_arrows (Some 0)) effs
   = (Inr RUNNING_MODAL, running_operator [] (Some 0), effs @ [TagRedraw])"
proof -
  have u: "update_arrows (scene ''VIEW_3D'' (Some hidden_view) r) (running_operator top_arrows (Some 0))
           = Inr (running_operator [] (Some 0))"
    by (simp add: update_hidden running_operator_def)
  have "ev_type (mk_event ''TIMER'' ''NOTHING'' 480 300) = ''TIMER''"
    by (simp add: mk_event_def)
  from modal_timer [OF this u] show ?thesis
    by (simp add: tag_redraw_scene)
qed

lemma click_stale:
  "modal (scene ''VIEW_3D'' (Some hidden_view) r) (mk_event ''LEFTMOUSE'' ''PRESS'' 480 300)
     (running_operator [] (Some 0)) effs
   = (Inl IndexError, running_operator [] (Some 0), effs @ [TagRedraw])"
proof -
  have "modal (scene ''VIEW_3D'' (Some hidden_view) r) (mk_event ''LEFTMOUSE'' ''PRESS'' 480 300)
     (running_operator [] (Some 0)) effs
    = commit (scene ''VIEW_3D'' (Some hidden_view) r) 0 (running_operator [] (Some 0))
        (tag_redraw (scene ''VIEW_3D'' (Some hidden_view) r) effs)"
    by (rule modal_click_commit) (simp_all add: mk_event_def running_operator_def)
  then show ?thesis
    by (simp add: commit_def running_operator_def tag_redraw_scene)
qed

section \<open>Claims about the session's resources\<close>

text \<open>
  Claim C1, as stated: the timer and the draw subscription are released on every exit,
  also when the mirror primitive raises during the commit. It fails on this session:
  the operator is invoked in the 3D viewport, the pointer moves onto the tip of the X+
  arrow, and the left press calls a primitive that raises. \<open>modal\<close> is left by the
  exception before \<open>finish\<close> is reached: the effects of the session hold the timer and
  the draw handler that were added and no removal of either.
\<close>

theorem commit_failure_counterexample:
  "session [] (scene ''VIEW_3D'' (Some top_view) True) (mk_event ''X'' ''PRESS'' 480 300)
     [(scene ''VIEW_3D'' (Some top_view) True, mk_event ''MOUSEMOVE'' ''NOTHING'' 480 300),
      (scene ''VIEW_3D'' (Some top_view) True, mk_event ''LEFTMOUSE'' ''PRESS'' 480 300)]
   = (Inl RuntimeError, running_operator top_arrows (Some 0),
      [ShaderFromBuiltin ''UNIFORM_COLOR'', TimerAdd 1 0.25, DrawHandlerAdd 2, ModalHandlerAdd,
       TagRedraw, TagRedraw, Symmetrize ''POSITIVE_X'' 0.0001])
   \<and> timer_effects
         [ShaderFromBuiltin ''UNIFORM_COLOR'', TimerAdd 1 0.25, DrawHandlerAdd 2, ModalHandlerAdd,
          TagRedraw, TagRedraw, Symmetrize ''POSITIVE_X'' 0.0001]
       = [TimerAdd 1 0.25]
   \<and> handler_effects
         [ShaderFromBuiltin ''UNIFORM_COLOR'', TimerAdd 1 0.25, DrawHandlerAdd 2, ModalHandlerAdd,
          TagRedraw, TagRedraw, Symmetrize ''POSITIVE_X'' 0.0001]
       = [DrawHandlerAdd 2]"
  by (simp add: session_def invoke_top move_top click_top timer_effects_def handler_effects_def)


text \<open>
  Claim C1, amended. For every modal session that ends with \<open>modal\<close> returning, either
  \<open>CANCELLED\<close> (secondary click or escape) or \<open>FINISHED\<close> (primary click on a hovered
  arrow, the mirror primitive having returned), the session has acquired one timer and
  one draw subscription and has released each of them exactly once.
\<close>

theorem resources_released_once:
  assumes "fst (invoke c e (new_operator arrows0) []) = Inr RUNNING_MODAL"
    and "session arrows0 c e evs = (Inr r, self1, effs1)"
    and "r = CANCELLED \<or> r = FINISHED"
  shows "\<exists>t h. timer_effects effs1 = [TimerAdd t 0.25, TimerRemove t]
           \<and> handler_effects effs1 = [DrawHandlerAdd h, DrawHandlerRemove h]"
proof -
  obtain s0 f0 where i: "invoke c e (new_operator arrows0) [] = (Inr RUNNING_MODAL, s0, f0)"
    using assms(1) by (cases "invoke c e (new_operator arrows0) []") auto
  from invoke_running [OF i] obtain t h where
    th: "op_timer s0 = Some t" "op_handle s0 = Some h"
      "timer_effects f0 = [TimerAdd t 0.25]" "handler_effects f0 = [DrawHandlerAdd h]"
    by blast
  from assms(2) i have "run_modal evs s0 f0 = (Inr r, self1, effs1)"
    by (simp add: session_def)
  from run_modal_resources [OF th(1) th(2) this assms(3)] th(3) th(4)
  show ?thesis by simp
qed


text \<open>Witness for claim C1, amended: the session that commits along X+ with a primitive
  that returns.\<close>

theorem resources_released_once_witness:
  "fst (invoke (scene ''VIEW_3D'' (Some top_view) False) (mk_event ''X'' ''PRESS'' 480 300)
          (new_operator []) []) = Inr RUNNING_MODAL
   \<and> session [] (scene ''VIEW_3D'' (Some top_view) False) (mk_event ''X'' ''PRESS'' 480 300)
     [(scene ''VIEW_3D'' (Some top_view) False, mk_event ''MOUSEMOVE'' ''NOTHING'' 480 300),
      (scene ''VIEW_3D'' (Some top_view) False, mk_event ''LEFTMOUSE'' ''PRESS'' 480 300)]
     = (Inr FINISHED, running_operator top_arrows (Some 0),
        [ShaderFromBuiltin ''UNIFORM_COLOR'', TimerAdd 1 0.25, DrawHandlerAdd 2, ModalHandlerAdd,
         TagRedraw, TagRedraw, Symmetrize ''POSITIVE_X'' 0.0001, TimerRemove 1,
         DrawHandlerRemove 2, TagRedraw])
   \<and> (\<exists>t h. timer_effects
               [ShaderFromBuiltin ''UNIFORM_COLOR'', TimerAdd 1 0.25, DrawHandlerAdd 2,
                ModalHandlerAdd, TagRedraw, TagRedraw, Symmetrize ''POSITIVE_X'' 0.0001,
                TimerRemove 1, DrawHandlerRemove 2, TagRedraw]
             = [TimerAdd t 0.25, TimerRemove t]
           \<and> handler_effects
               [ShaderFromBuiltin ''UNIFORM_COLOR'', TimerAdd 1 0.25, DrawHandlerAdd 2,
                ModalHandlerAdd, TagRedraw, TagRedraw, Symmetrize ''POSITIVE_X'' 0.0001,
                TimerRemove 1, DrawHandlerRemove 2, TagRedraw]
             = [DrawHandlerAdd h, DrawHandlerRemove h])"
proof -
  have a: "fst (invoke (scene ''VIEW_3D'' (Some top_view) False) (mk_event ''X'' ''PRESS'' 480 300)
          (new_operator []) []) = Inr RUNNING_MODAL"
    by (simp add: invoke_top)
  have b: "session [] (scene ''VIEW_3D'' (Some top_view) False) (mk_event ''X'' ''PRESS'' 480 300)
     [(scene ''VIEW_3D'' (Some top_view) False, mk_event ''MOUSEMOVE'' ''NOTHING'' 480 300),
      (scene ''VIEW_3D'' (Some top_view) False, mk_event ''LEFTMOUSE'' ''PRESS'' 480 300)]
     = (Inr FINISHED, running_operator top_arrows (Some 0),
        [ShaderFromBuiltin ''UNIFORM_COLOR'', TimerAdd 1 0.25, DrawHandlerAdd 2, ModalHandlerAdd,
         TagRedraw, TagRedraw, Symmetrize ''POSITIVE_X'' 0.0001, TimerRemove 1,
         DrawHandlerRemove 2, TagRedraw])"
    by (simp add: session_def invoke_top move_top click_top)
  from resources_released_once [OF a b] a b show ?thesis
    by blast
qed


text \<open>
  Claim C2, at an input where it fails. The claim says that without an active 3D
  viewport the operator reports a warning, enters no state and acquires no resource.
  The operator is invoked on a mesh in edit mode from an area of type \<open>OUTLINER\<close>.
  With a space that has a \<open>region_3d\<close>, \<open>invoke\<close> refreshes the arrows and adds the
  timer before it looks at the type of the area; it then reports the warning and
  returns \<open>CANCELLED\<close> with the timer added and never removed. With a space that has
  no \<open>region_3d\<close>, the refresh raises \<open>AttributeError\<close> and no warning is reported.
\<close>

theorem invoke_outside_viewport:
  "invoke (scene ''OUTLINER'' (Some top_view) False) (mk_event ''X'' ''PRESS'' 0 0) (new_operator []) []
   = (Inr CANCELLED,
      \<lparr>op_handle = None, op_timer = Some 1, op_arrows = top_arrows, op_hover = None,
       op_shader = Some ''UNIFORM_COLOR''\<rparr>,
      [ShaderFromBuiltin ''UNIFORM_COLOR'', TimerAdd 1 0.25,
       Report ''WARNING'' ''View3D area required''])
   \<and> invoke (scene ''OUTLINER'' None False) (mk_event ''X'' ''PRESS'' 0 0) (new_operator []) []
   = (Inl AttributeError,
      \<lparr>op_handle = None, op_timer = None, op_arrows = [], op_hover = None,
       op_shader = Some ''UNIFORM_COLOR''\<rparr>,
      [ShaderFromBuiltin ''UNIFORM_COLOR''])"
proof -
  have u: "update_arrows (scene ''OUTLINER'' (Some top_view) False) self
           = Inr (self\<lparr>op_arrows := top_arrows\<rparr>)" for self
  proof -
    have "update_arrows (scene ''OUTLINER'' (Some top_view) False) self
          = update_arrows (scene ''VIEW_3D'' (Some top_view) False) self"
      by (simp add: update_arrows_def scene_def)
    then show ?thesis by (simp add: update_top)
  qed
  have a: "invoke (scene ''OUTLINER'' (Some top_view) False) (mk_event ''X'' ''PRESS'' 0 0) (new_operator []) []
   = (Inr CANCELLED,
      \<lparr>op_handle = None, op_timer = Some 1, op_arrows = top_arrows, op_hover = None,
       op_shader = Some ''UNIFORM_COLOR''\<rparr>,
      [ShaderFromBuiltin ''UNIFORM_COLOR'', TimerAdd 1 0.25,
       Report ''WARNING'' ''View3D area required''])"
    unfolding invoke_def u
    by (simp add: scene_def identity_object_def new_operator_def Let_def)
  have b: "invoke (scene ''OUTLINER'' None False) (mk_event ''X'' ''PRESS'' 0 0) (new_operator []) []
   = (Inl AttributeError,
      \<lparr>op_handle = None, op_timer = None, op_arrows = [], op_hover = None,
       op_shader = Some ''UNIFORM_COLOR''\<rparr>,
      [ShaderFromBuiltin ''UNIFORM_COLOR''])"
    by (simp add: invoke_def update_arrows_def scene_def identity_object_def new_operator_def Let_def)
  from a b show ?thesis by blast
qed


text \<open>
  Claim C3, at an input where it fails. The claim says that the hover index is none
  or a valid index into the current arrows whenever it is read, also after a timer
  tick has replaced the arrows. In this session the pointer hovers the X+ arrow
  (index 0); the view then changes so that the origin no longer projects onto the
  region, and the timer tick leaves no arrow but keeps the hover index; the left press
  that follows indexes the empty list with 0 and raises \<open>IndexError\<close>.
\<close>

theorem stale_hover_index_error:
  "session [] (scene ''VIEW_3D'' (Some top_view) False) (mk_event ''X'' ''PRESS'' 480 300)
     [(scene ''VIEW_3D'' (Some top_view) False, mk_event ''MOUSEMOVE'' ''NOTHING'' 480 300),
      (scene ''VIEW_3D'' (Some hidden_view) False, mk_event ''TIMER'' ''NOTHING'' 480 300),
      (scene ''VIEW_3D'' (Some hidden_view) False, mk_event ''LEFTMOUSE'' ''PRESS'' 480 300)]
   = (Inl IndexError,
      \<lparr>op_handle = Some 2, op_timer = Some 1, op_arrows = [], op_hover = Some 0,
       op_shader = Some ''UNIFORM_COLOR''\<rparr>,
      [ShaderFromBuiltin ''UNIFORM_COLOR'', TimerAdd 1 0.25, DrawHandlerAdd 2, ModalHandlerAdd,
       TagRedraw, TagRedraw, TagRedraw])"
  by (simp add: session_def invoke_top move_top timer_hidden click_stale)
     (simp add: running_operator_def)

section \<open>Claims about the refresh\<close>

text \<open>
  Claim C4, as stated: every arrow refresh produces exactly 6 arrows. It fails when the
  origin of the object does not project onto the region: each of the six directions
  is skipped and the refresh leaves no arrow.
\<close>

theorem refresh_counterexample:
  "update_arrows (scene ''VIEW_3D'' (Some hidden_view) False) (new_operator []) = Inr (new_operator [])
   \<and> length (op_arrows (new_operator [])) \<noteq> 6"
proof -
  have a: "object (scene ''VIEW_3D'' (Some hidden_view) False) = Some identity_object"
    by (simp add: scene_def)
  have b: "space_data (scene ''VIEW_3D'' (Some hidden_view) False)
           = Some \<lparr>region_3d = Some hidden_view\<rparr>"
    by (simp add: scene_def)
  have c: "region_3d \<lparr>region_3d = Some hidden_view\<rparr> = Some hidden_view"
    by simp
  have d: "location_3d_to_region_2d hidden_view (translation (matrix_world identity_object)) = None"
    by (simp add: hidden_view_def)
  show ?thesis
    by (simp add: update_arrows_refresh [OF a b c] refresh_hidden [OF d] new_operator_def)
qed


text \<open>
  Claim C4, amended. A refresh with an active object in a 3D viewport replaces the
  arrows and leaves the hover index as it was. When the origin of the object projects
  onto the region it produces exactly 6 arrows, in the order X+, X-, Y+, Y-, Z+, Z-;
  when it does not, it produces none.
\<close>

theorem refresh_six_or_none:
  "object c = Some obj \<Longrightarrow> space_data c = Some sd \<Longrightarrow> region_3d sd = Some rv3d \<Longrightarrow>
   \<exists>self'. update_arrows c self = Inr self'
     \<and> op_hover self' = op_hover self
     \<and> (case location_3d_to_region_2d rv3d (translation (matrix_world obj)) of
           None \<Rightarrow> op_arrows self' = []
         | Some p \<Rightarrow>
             length (op_arrows self') = 6
             \<and> map (\<lambda>a. (arrow_axis a, arrow_sign a)) (op_arrows self')
                 = [(AxisX, 1), (AxisX, -1), (AxisY, 1), (AxisY, -1), (AxisZ, 1), (AxisZ, -1)])"
proof -
  assume h: "object c = Some obj" "space_data c = Some sd" "region_3d sd = Some rv3d"
  let ?arrows = "List.map_filter
              (arrow_for rv3d (arrow_size c) (translation (matrix_world obj))
                 (normalized (view_rotation rv3d (Vector 0 0 (-1)))) (to_3x3 (matrix_world obj)))
              axis_signs"
  have u: "update_arrows c self = Inr (self\<lparr>op_arrows := ?arrows\<rparr>)"
    using h by (rule update_arrows_refresh)
  show ?thesis
  proof (cases "location_3d_to_region_2d rv3d (translation (matrix_world obj))")
    case None
    then show ?thesis
      using u by (simp add: refresh_hidden)
  next
    case (Some p)
    have m: "map (\<lambda>a. (arrow_axis a, arrow_sign a)) ?arrows = axis_signs"
      using Some by (rule refresh_visible)
    then have "length (map (\<lambda>a. (arrow_axis a, arrow_sign a)) ?arrows) = length axis_signs"
      by simp
    then have l: "length ?arrows = 6"
      by (simp add: axis_signs_eq)
    show ?thesis
      using u Some m l by (simp add: axis_signs_eq)
  qed
qed


text \<open>Witness for claim C4, amended: the refresh of the scene seen from the top.\<close>

theorem refresh_six_or_none_witness:
  "object (scene ''VIEW_3D'' (Some top_view) False) = Some identity_object
   \<and> space_data (scene ''VIEW_3D'' (Some top_view) False) = Some \<lparr>region_3d = Some top_view\<rparr>
   \<and> region_3d \<lparr>region_3d = Some top_view\<rparr> = Some top_view
   \<and> (\<exists>self'. update_arrows (scene ''VIEW_3D'' (Some top_view) False) (new_operator []) = Inr self'
         \<and> length (op_arrows self') = 6)"
proof -
  have a: "object (scene ''VIEW_3D'' (Some top_view) False) = Some identity_object"
    by (simp add: scene_def)
  have b: "space_data (scene ''VIEW_3D'' (Some top_view) False) = Some \<lparr>region_3d = Some top_view\<rparr>"
    by (simp add: scene_def)
  have c: "region_3d \<lparr>region_3d = Some top_view\<rparr> = Some top_view"
    by simp
  have d: "location_3d_to_region_2d top_view (translation (matrix_world identity_object))
           = Some (Vector2 400 300)"
    by (simp add: top_view_def identity_object_def)
  from refresh_six_or_none [OF a b c, of "new_operator []"] d a b c
  show ?thesis by auto
qed


text \<open>
  Claim C7, at an input where it fails. The claim says that for every axis direction
  whose absolute dot product with the view direction exceeds 0.96 the adjusted
  direction is strictly less parallel to the view. In the scene seen from the top the
  Z axis of the object is exactly parallel to the view direction: the cross product of
  the two is the zero vector, its normalisation is the zero vector again, and the tilt
  adds nothing. The adjusted direction is the direction itself and its absolute dot
  product with the view direction is still 1.
\<close>

theorem tilt_parallel_view:
  "normalized (view_rotation top_view (Vector 0 0 (-1))) = Vector 0 0 (-1)
   \<and> vmul (axes (to_3x3 (matrix_world identity_object)) AxisZ) (real_of_int 1) = Vector 0 0 1
   \<and> \<bar>dot (normalized (Vector 0 0 1)) (Vector 0 0 (-1))\<bar> = 1
   \<and> adjust_direction (Vector 0 0 (-1)) (Vector 0 0 1) = Vector 0 0 1
   \<and> \<bar>dot (adjust_direction (Vector 0 0 (-1)) (Vector 0 0 1)) (Vector 0 0 (-1))\<bar> = 1"
proof -
  have n: "normalized (Vector 0 0 1) = Vector 0 0 1"
    by (simp add: normalized_def vlength_def dot_def vmul_def)
  have c: "normalized (cross (Vector 0 0 (-1)) (Vector 0 0 1)) = Vector 0 0 0"
    by (simp add: normalized_def cross_def vlength_def dot_def)
  have a: "adjust_direction (Vector 0 0 (-1)) (Vector 0 0 1) = Vector 0 0 1"
    by (simp add: adjust_direction_def Let_def n c) (simp add: dot_def vmul_def vadd_def n)
  have v: "normalized (view_rotation top_view (Vector 0 0 (-1))) = Vector 0 0 (-1)"
    by (simp add: top_view_def normalized_view)
  have z: "vmul (axes (to_3x3 (matrix_world identity_object)) AxisZ) (real_of_int 1) = Vector 0 0 1"
    by (simp add: identity_object_def mat3_mul_def dot_def vmul_def)
  have d1: "\<bar>dot (normalized (Vector 0 0 1)) (Vector 0 0 (-1))\<bar> = 1"
    unfolding n by (simp add: dot_def)
  have d2: "\<bar>dot (adjust_direction (Vector 0 0 (-1)) (Vector 0 0 1)) (Vector 0 0 (-1))\<bar> = 1"
    unfolding a by (simp add: dot_def)
  from v z d1 a d2 show ?thesis
    by blast
qed


text \<open>
  Claim C10. When no object is active the refresh returns at once and changes nothing
  of the operator: the arrows computed before stay in place. A timer tick in that
  situation only requests a redraw, and the overlay draws the same arrows as before.
\<close>

theorem stale_arrows_without_object:
  "object c = None \<Longrightarrow>
   update_arrows c self = Inr self
   \<and> (ev_type e = ''TIMER'' \<longrightarrow> modal c e self effs = (Inr RUNNING_MODAL, self, tag_redraw c effs))
   \<and> (ev_type e = ''TIMER'' \<longrightarrow> draw_callback (fst (snd (modal c e self effs))) = draw_callback self)"
  by (simp add: update_arrows_def modal_def Let_def pass_through_types_def handle_event_def)


text \<open>Witness for claim C10: a timer tick in the scene without its object; the six arrows
  and the hover index of before stay.\<close>

theorem stale_arrows_without_object_witness:
  "object ((scene ''VIEW_3D'' (Some top_view) False)\<lparr>object := None\<rparr>) = None
   \<and> ev_type (mk_event ''TIMER'' ''NOTHING'' 0 0) = ''TIMER''
   \<and> update_arrows ((scene ''VIEW_3D'' (Some top_view) False)\<lparr>object := None\<rparr>)
        (running_operator top_arrows (Some 0))
      = Inr (running_operator top_arrows (Some 0))
   \<and> modal ((scene ''VIEW_3D'' (Some top_view) False)\<lparr>object := None\<rparr>)
        (mk_event ''TIMER'' ''NOTHING'' 0 0) (running_operator top_arrows (Some 0)) []
      = (Inr RUNNING_MODAL, running_operator top_arrows (Some 0), [TagRedraw])"
  using stale_arrows_without_object
          [of "(scene ''VIEW_3D'' (Some top_view) False)\<lparr>object := None\<rparr>"
              "running_operator top_arrows (Some 0)" "mk_event ''TIMER'' ''NOTHING'' 0 0" "[]"]
  by (simp add: scene_def mk_event_def tag_redraw_def)

section \<open>Claims about the pointer\<close>

text \<open>
  Claim C5. On a pointer move that is not passed through (the alt key is not held),
  in a 3D viewport, \<open>modal\<close> keeps running, leaves the arrows as they are and sets the
  hover index to the first arrow of the list whose projected tip lies within 20 pixels
  of the pointer, a distance of exactly 20 included; the hover index is none exactly
  when no arrow has its tip projected within that distance. The list is in the order
  X+, X-, Y+, Y-, Z+, Z- whenever it comes from a refresh in which the origin projected.
\<close>

theorem hover_is_first_hit:
  assumes "ev_type e = ''MOUSEMOVE''" and "\<not> ev_alt e"
    and "space_data c = Some sd" and "region_3d sd = Some rv3d"
  shows "\<exists>self'. modal c e self effs = (Inr RUNNING_MODAL, self', tag_redraw c effs)
     \<and> op_arrows self' = op_arrows self
     \<and> ((op_hover self' = None)
          = (\<forall>a \<in> set (op_arrows self). \<not> within_radius rv3d (mouse_region_x e) (mouse_region_y e) a))
     \<and> (\<forall>i. op_hover self' = Some i \<longrightarrow>
           i < length (op_arrows self)
           \<and> within_radius rv3d (mouse_region_x e) (mouse_region_y e) (op_arrows self ! i)
           \<and> (\<forall>j < i. \<not> within_radius rv3d (mouse_region_x e) (mouse_region_y e) (op_arrows self ! j)))
     \<and> (\<forall>c0 self0 obj sd0 rv0 p.
           object c0 = Some obj \<and> space_data c0 = Some sd0 \<and> region_3d sd0 = Some rv0
           \<and> location_3d_to_region_2d rv0 (translation (matrix_world obj)) = Some p
           \<and> update_arrows c0 self0 = Inr self
           \<longrightarrow> map (\<lambda>a. (arrow_axis a, arrow_sign a)) (op_arrows self)
                 = [(AxisX, 1), (AxisX, -1), (AxisY, 1), (AxisY, -1), (AxisZ, 1), (AxisZ, -1)])"
proof -
  let ?h = "hit_test rv3d (mouse_region_x e) (mouse_region_y e) 0 (op_arrows self)"
  let ?self' = "self\<lparr>op_hover := ?h\<rparr>"
  have m: "modal c e self effs = (Inr RUNNING_MODAL, ?self', tag_redraw c effs)"
    using assms by (rule modal_mousemove)
  have n: "(?h = None)
          = (\<forall>a \<in> set (op_arrows self). \<not> within_radius rv3d (mouse_region_x e) (mouse_region_y e) a)"
    by (simp add: hit_test_None tip_hit_within_radius)
  have s: "\<forall>i. ?h = Some i \<longrightarrow>
           i < length (op_arrows self)
           \<and> within_radius rv3d (mouse_region_x e) (mouse_region_y e) (op_arrows self ! i)
           \<and> (\<forall>j < i. \<not> within_radius rv3d (mouse_region_x e) (mouse_region_y e) (op_arrows self ! j))"
  proof (intro allI impI)
    fix i assume "?h = Some i"
    from hit_test_Some [OF this] show "i < length (op_arrows self)
           \<and> within_radius rv3d (mouse_region_x e) (mouse_region_y e) (op_arrows self ! i)
           \<and> (\<forall>j < i. \<not> within_radius rv3d (mouse_region_x e) (mouse_region_y e) (op_arrows self ! j))"
      by (simp add: tip_hit_within_radius)
  qed
  have o: "\<forall>c0 self0 obj sd0 rv0 p.
           object c0 = Some obj \<and> space_data c0 = Some sd0 \<and> region_3d sd0 = Some rv0
           \<and> location_3d_to_region_2d rv0 (translation (matrix_world obj)) = Some p
           \<and> update_arrows c0 self0 = Inr self
           \<longrightarrow> map (\<lambda>a. (arrow_axis a, arrow_sign a)) (op_arrows self)
                 = [(AxisX, 1), (AxisX, -1), (AxisY, 1), (AxisY, -1), (AxisZ, 1), (AxisZ, -1)]"
  proof (intro allI impI)
    fix c0 self0 obj sd0 rv0 p
    assume h: "object c0 = Some obj \<and> space_data c0 = Some sd0 \<and> region_3d sd0 = Some rv0
           \<and> location_3d_to_region_2d rv0 (translation (matrix_world obj)) = Some p
           \<and> update_arrows c0 self0 = Inr self"
    from h have u: "update_arrows c0 self0 =
     Inr (self0\<lparr>op_arrows :=
            List.map_filter
              (arrow_for rv0 (arrow_size c0) (translation (matrix_world obj))
                 (normalized (view_rotation rv0 (Vector 0 0 (-1)))) (to_3x3 (matrix_world obj)))
              axis_signs\<rparr>)"
      using update_arrows_refresh [of c0 obj sd0 rv0 self0] by blast
    with h have eq: "op_arrows self = List.map_filter
              (arrow_for rv0 (arrow_size c0) (translation (matrix_world obj))
                 (normalized (view_rotation rv0 (Vector 0 0 (-1)))) (to_3x3 (matrix_world obj)))
              axis_signs"
      by auto
    from h have "location_3d_to_region_2d rv0 (translation (matrix_world obj)) = Some p"
      by blast
    then have "map (\<lambda>a. (arrow_axis a, arrow_sign a)) (op_arrows self) = axis_signs"
      unfolding eq by (rule refresh_visible)
    then show "map (\<lambda>a. (arrow_axis a, arrow_sign a)) (op_arrows self)
                 = [(AxisX, 1), (AxisX, -1), (AxisY, 1), (AxisY, -1), (AxisZ, 1), (AxisZ, -1)]"
      by (simp only: axis_signs_eq)
  qed
  from m n s o show ?thesis by simp
qed


text \<open>Witness for claim C5: the pointer on the projected tip of the X+ arrow of the
  scene seen from the top; the hover index becomes 0.\<close>

theorem hover_is_first_hit_witness:
  "ev_type (mk_event ''MOUSEMOVE'' ''NOTHING'' 480 300) = ''MOUSEMOVE''
   \<and> \<not> ev_alt (mk_event ''MOUSEMOVE'' ''NOTHING'' 480 300)
   \<and> space_data (scene ''VIEW_3D'' (Some top_view) False) = Some \<lparr>region_3d = Some top_view\<rparr>
   \<and> region_3d \<lparr>region_3d = Some top_view\<rparr> = Some top_view
   \<and> (\<exists>self'. modal (scene ''VIEW_3D'' (Some top_view) False)
                  (mk_event ''MOUSEMOVE'' ''NOTHING'' 480 300) (running_operator top_arrows None) []
                = (Inr RUNNING_MODAL, self', [TagRedraw])
         \<and> op_arrows self' = top_arrows
         \<and> op_hover self' = Some 0)"
proof -
  let ?e = "mk_event ''MOUSEMOVE'' ''NOTHING'' 480 300"
  let ?c = "scene ''VIEW_3D'' (Some top_view) False"
  have a: "ev_type ?e = ''MOUSEMOVE''" by (simp add: mk_event_def)
  have b: "\<not> ev_alt ?e" by (simp add: mk_event_def)
  have c: "space_data ?c = Some \<lparr>region_3d = Some top_view\<rparr>" by (rule space_top)
  have d: "region_3d \<lparr>region_3d = Some top_view\<rparr> = Some top_view" by simp
  have xy: "mouse_region_x ?e = 480" "mouse_region_y ?e = 300" by (simp_all add: mk_event_def)
  have ar: "op_arrows (running_operator top_arrows None) = top_arrows"
    by (simp add: running_operator_def)
  from top_arrows_head obtain a0 rest where h: "top_arrows = a0 # rest" "arrow_tip a0 = Vector 1 0 0"
    by blast
  have "tip_hit top_view 480 300 a0"
    by (simp add: tip_hit_def h(2) top_view_def tol_def)
  then have w: "within_radius top_view 480 300 (top_arrows ! 0)"
    unfolding h(1) by (simp add: tip_hit_within_radius)
  have w': "within_radius top_view 480 300 a0"
    using w unfolding h(1) by simp
  from hover_is_first_hit [OF a b c d, of "running_operator top_arrows None" "[]"]
  obtain self' where m: "modal ?c ?e (running_operator top_arrows None) [] = (Inr RUNNING_MODAL, self', tag_redraw ?c [])"
    and oa: "op_arrows self' = top_arrows"
    and none: "(op_hover self' = None) = (\<forall>a \<in> set top_arrows. \<not> within_radius top_view 480 300 a)"
    and some: "\<forall>i. op_hover self' = Some i \<longrightarrow>
           i < length top_arrows \<and> within_radius top_view 480 300 (top_arrows ! i)
           \<and> (\<forall>j < i. \<not> within_radius top_view 480 300 (top_arrows ! j))"
    unfolding xy ar
    apply -
    apply (elim exE conjE)
    apply (rule that)
       apply assumption+
    done
  have "op_hover self' \<noteq> None"
    unfolding none h(1) using w' by simp
  then obtain i where i: "op_hover self' = Some i" by blast
  with some have "\<forall>j < i. \<not> within_radius top_view 480 300 (top_arrows ! j)" by blast
  with w have "i = 0" by (cases i) auto
  with i m oa a b c d show ?thesis
    by (simp add: tag_redraw_scene)
qed


text \<open>
  Claim C6, as stated: every left press with a hovered arrow enters the committed
  state. It fails when the mirror primitive raises: the primitive has been called once
  with the token of the hovered arrow, and the exception leaves \<open>modal\<close>, which does not
  return \<open>FINISHED\<close>.
\<close>

theorem primary_click_raising_counterexample:
  "ev_type (mk_event ''LEFTMOUSE'' ''PRESS'' 480 300) = ''LEFTMOUSE''
   \<and> ev_value (mk_event ''LEFTMOUSE'' ''PRESS'' 480 300) = ''PRESS''
   \<and> op_hover (running_operator top_arrows (Some 0)) = Some 0
   \<and> 0 < length (op_arrows (running_operator top_arrows (Some 0)))
   \<and> modal (scene ''VIEW_3D'' (Some top_view) True) (mk_event ''LEFTMOUSE'' ''PRESS'' 480 300)
        (running_operator top_arrows (Some 0)) []
      = (Inl RuntimeError, running_operator top_arrows (Some 0),
         [TagRedraw, Symmetrize ''POSITIVE_X'' 0.0001])"
proof -
  have a: "ev_type (mk_event ''LEFTMOUSE'' ''PRESS'' 480 300) = ''LEFTMOUSE''
           \<and> ev_value (mk_event ''LEFTMOUSE'' ''PRESS'' 480 300) = ''PRESS''"
    by (simp add: mk_event_def)
  have b: "op_hover (running_operator top_arrows (Some 0)) = Some 0"
    by (simp add: running_operator_def)
  have "length (op_arrows (running_operator top_arrows (Some 0))) = 6"
    by (simp add: running_operator_def length_top)
  then have c: "0 < length (op_arrows (running_operator top_arrows (Some 0)))"
    by simp
  have d: "modal (scene ''VIEW_3D'' (Some top_view) True) (mk_event ''LEFTMOUSE'' ''PRESS'' 480 300)
        (running_operator top_arrows (Some 0)) []
      = (Inl RuntimeError, running_operator top_arrows (Some 0),
         [TagRedraw, Symmetrize ''POSITIVE_X'' 0.0001])"
    by (simp add: click_top)
  from a b c d show ?thesis
    by blast
qed

text \<open>
  Claim C6, amended. On a left press with no hovered arrow \<open>modal\<close> keeps running and changes
  nothing but the redraw request; the mirror primitive is not called. On a left press
  with a hovered arrow (a hover index inside the list) the mirror primitive is called
  exactly once, with the token made of the sign and the axis of that arrow (one of the
  six tokens) and the threshold 0.0001; when the call returns, \<open>modal\<close> releases the
  resources and returns \<open>FINISHED\<close>, and when it raises, the exception leaves \<open>modal\<close>.
\<close>

theorem primary_click:
  assumes "ev_type e = ''LEFTMOUSE''" and "ev_value e = ''PRESS''"
  shows "(op_hover self = None \<longrightarrow>
            modal c e self effs = (Inr RUNNING_MODAL, self, tag_redraw c effs)
            \<and> symmetrize_effects (tag_redraw c effs) = symmetrize_effects effs)
     \<and> (\<forall>i. op_hover self = Some i \<and> i < length (op_arrows self) \<longrightarrow>
          (let a = op_arrows self ! i;
               token = (case (arrow_axis a, arrow_sign a > 0) of
                          (AxisX, True) \<Rightarrow> ''POSITIVE_X'' | (AxisX, False) \<Rightarrow> ''NEGATIVE_X''
                        | (AxisY, True) \<Rightarrow> ''POSITIVE_Y'' | (AxisY, False) \<Rightarrow> ''NEGATIVE_Y''
                        | (AxisZ, True) \<Rightarrow> ''POSITIVE_Z'' | (AxisZ, False) \<Rightarrow> ''NEGATIVE_Z'');
               call = Symmetrize token 0.0001
           in symmetrize_effects (snd (snd (modal c e self effs))) = symmetrize_effects effs @ [call]
              \<and> fst (snd (modal c e self effs)) = self
              \<and> (\<not> symmetrize_raises c token 0.0001 \<longrightarrow>
                    modal c e self effs
                    = (Inr FINISHED, self, finish c self (tag_redraw c effs @ [call])))
              \<and> (symmetrize_raises c token 0.0001 \<longrightarrow>
                    modal c e self effs = (Inl RuntimeError, self, tag_redraw c effs @ [call]))))"
proof (intro conjI allI impI)
  assume "op_hover self = None"
  with assms show "modal c e self effs = (Inr RUNNING_MODAL, self, tag_redraw c effs)"
    by (rule modal_click_idle)
next
  show "symmetrize_effects (tag_redraw c effs) = symmetrize_effects effs"
    by (rule symmetrize_effects_tag_redraw)
next
  fix i
  assume h: "op_hover self = Some i \<and> i < length (op_arrows self)"
  then have m: "modal c e self effs = commit c i self (tag_redraw c effs)"
    using assms by (simp add: modal_click_commit)
  show "(let a = op_arrows self ! i;
               token = (case (arrow_axis a, arrow_sign a > 0) of
                          (AxisX, True) \<Rightarrow> ''POSITIVE_X'' | (AxisX, False) \<Rightarrow> ''NEGATIVE_X''
                        | (AxisY, True) \<Rightarrow> ''POSITIVE_Y'' | (AxisY, False) \<Rightarrow> ''NEGATIVE_Y''
                        | (AxisZ, True) \<Rightarrow> ''POSITIVE_Z'' | (AxisZ, False) \<Rightarrow> ''NEGATIVE_Z'');
               call = Symmetrize token 0.0001
           in symmetrize_effects (snd (snd (modal c e self effs))) = symmetrize_effects effs @ [call]
              \<and> fst (snd (modal c e self effs)) = self
              \<and> (\<not> symmetrize_raises c token 0.0001 \<longrightarrow>
                    modal c e self effs
                    = (Inr FINISHED, self, finish c self (tag_redraw c effs @ [call])))
              \<and> (symmetrize_raises c token 0.0001 \<longrightarrow>
                    modal c e self effs = (Inl RuntimeError, self, tag_redraw c effs @ [call])))"
    unfolding m direction_token_cases [symmetric] Let_def
    using h
    by (simp add: commit_def Let_def threshold_def symmetrize_effects_finish
          symmetrize_effects_append symmetrize_effects_tag_redraw)
       (simp add: symmetrize_effects_def)
qed


text \<open>Witness for claim C6, amended: a left press in the scene seen from the top, without a hover
  and with the X+ arrow hovered.\<close>

theorem primary_click_witness:
  "ev_type (mk_event ''LEFTMOUSE'' ''PRESS'' 480 300) = ''LEFTMOUSE''
   \<and> ev_value (mk_event ''LEFTMOUSE'' ''PRESS'' 480 300) = ''PRESS''
   \<and> modal (scene ''VIEW_3D'' (Some top_view) False) (mk_event ''LEFTMOUSE'' ''PRESS'' 480 300)
        (running_operator top_arrows None) []
      = (Inr RUNNING_MODAL, running_operator top_arrows None, [TagRedraw])
   \<and> modal (scene ''VIEW_3D'' (Some top_view) False) (mk_event ''LEFTMOUSE'' ''PRESS'' 480 300)
        (running_operator top_arrows (Some 0)) []
      = (Inr FINISHED, running_operator top_arrows (Some 0),
         [TagRedraw, Symmetrize ''POSITIVE_X'' 0.0001, TimerRemove 1, DrawHandlerRemove 2, TagRedraw])"
proof -
  let ?e = "mk_event ''LEFTMOUSE'' ''PRESS'' 480 300"
  let ?c = "scene ''VIEW_3D'' (Some top_view) False"
  have a: "ev_type ?e = ''LEFTMOUSE''" by (simp add: mk_event_def)
  have b: "ev_value ?e = ''PRESS''" by (simp add: mk_event_def)
  from top_arrows_head obtain a0 rest where h: "top_arrows = a0 # rest"
    "arrow_axis a0 = AxisX" "arrow_sign a0 = 1"
    by blast
  have ax: "arrow_axis (top_arrows ! 0) = AxisX" and sg: "arrow_sign (top_arrows ! 0) = 1"
    unfolding h(1) by (simp_all add: h(2) h(3))
  have nr: "\<not> symmetrize_raises ?c ''POSITIVE_X'' 0.0001"
    by (simp add: scene_def)
  have idle: "modal ?c ?e (running_operator top_arrows None) []
      = (Inr RUNNING_MODAL, running_operator top_arrows None, [TagRedraw])"
    using primary_click [OF a b, of "running_operator top_arrows None" ?c "[]"]
    by (simp add: running_operator_def tag_redraw_scene)
  have "modal ?c ?e (running_operator top_arrows (Some 0)) []
      = (Inr FINISHED, running_operator top_arrows (Some 0),
         finish ?c (running_operator top_arrows (Some 0))
           (tag_redraw ?c [] @ [Symmetrize ''POSITIVE_X'' 0.0001]))"
    using primary_click [OF a b, of "running_operator top_arrows (Some 0)" ?c "[]"] nr
    by (simp add: running_operator_def length_top ax sg Let_def)
  then have fin: "modal ?c ?e (running_operator top_arrows (Some 0)) []
      = (Inr FINISHED, running_operator top_arrows (Some 0),
         [TagRedraw, Symmetrize ''POSITIVE_X'' 0.0001, TimerRemove 1, DrawHandlerRemove 2, TagRedraw])"
    by (simp add: finish_def tag_redraw_scene running_operator_def Let_def)
  from a b idle fin show ?thesis
    by blast
qed

section \<open>Claims about the geometry\<close>

text \<open>
  Claim C8, as stated: for every direction the arrowhead has the half-width
  \<open>0.12 * length\<close>. It fails for the zero direction: the normalised direction is the
  zero vector, \<open>side2\<close> is the zero vector as well, and the two \<open>side2\<close> wing points
  (points 7 and 9) fall on \<open>shaft_mid\<close> (point 1) instead of \<open>0.12 * length\<close> away
  from it.
\<close>

theorem zero_direction_wings_collapse:
  "fst (make_solid_arrow (Vector 0 0 0) (Vector 0 0 0) 1) ! 1 = Vector 0 0 0
   \<and> fst (make_solid_arrow (Vector 0 0 0) (Vector 0 0 0) 1) ! 7 = Vector 0 0 0
   \<and> fst (make_solid_arrow (Vector 0 0 0) (Vector 0 0 0) 1) ! 9 = Vector 0 0 0
   \<and> vlength (vsub (fst (make_solid_arrow (Vector 0 0 0) (Vector 0 0 0) 1) ! 7)
                    (fst (make_solid_arrow (Vector 0 0 0) (Vector 0 0 0) 1) ! 1))
       \<noteq> 0.12 * 1"
  by (simp add: make_solid_arrow_points normalized_zero arrow_side2_zero)
     (simp add: vmul_def vadd_def vsub_def vlength_zero_vector)

text \<open>
  Claim C8, amended. For every base point, direction and length, \<open>make_solid_arrow\<close>
  returns the tip \<open>base + normalized(direction) * length\<close> and a polyline of ten
  points: it starts at the base, goes to
  \<open>shaft_mid = base + normalized(direction) * (0.75 * length)\<close> and to the tip, and
  then draws four wing strokes that each join the tip to a wing point, so the points
  2, 4, 6 and 8 are the tip. The wing points are \<open>shaft_mid\<close> plus and minus
  \<open>side * (0.12 * length)\<close> and \<open>shaft_mid\<close> plus and minus \<open>side2 * (0.12 * length)\<close>,
  where \<open>side\<close> is the normalised cross product of the normalised direction with world
  Y (world X when that cross product is shorter than \<open>1e-6\<close>) and \<open>side2\<close> is the
  normalised cross product of the normalised direction with \<open>side\<close>. \<open>side\<close> is a unit
  vector, so the two \<open>side\<close> wing points lie at distance \<open>0.12 * |length|\<close> from
  \<open>shaft_mid\<close>; \<open>side2\<close> is perpendicular to the direction and to \<open>side\<close>. For
  every direction other than the zero vector the tip lies at distance \<open>|length|\<close>
  from the base, \<open>side2\<close> is a unit vector too, and the two \<open>side2\<close> wing points lie
  at distance \<open>0.12 * |length|\<close> from \<open>shaft_mid\<close>.
\<close>

theorem make_solid_arrow_shape:
  "(let dir_n = normalized direction;
        tip = vadd base (vmul dir_n len);
        shaft_mid = vadd base (vmul dir_n (0.75 * len));
        head_w = 0.12 * len;
        cross_y = cross dir_n (Vector 0 1 0);
        side = normalized (if vlength cross_y < 1 / 1000000 then Vector 1 0 0 else cross_y);
        side2 = normalized (cross dir_n side);
        points = fst (make_solid_arrow base direction len)
    in snd (make_solid_arrow base direction len) = tip
       \<and> length points = 10
       \<and> points ! 0 = base \<and> points ! 1 = shaft_mid \<and> points ! 2 = tip
       \<and> points ! 3 = vadd shaft_mid (vmul side head_w) \<and> points ! 4 = tip
       \<and> points ! 5 = vsub shaft_mid (vmul side head_w) \<and> points ! 6 = tip
       \<and> points ! 7 = vadd shaft_mid (vmul side2 head_w) \<and> points ! 8 = tip
       \<and> points ! 9 = vsub shaft_mid (vmul side2 head_w)
       \<and> vlength side = 1
       \<and> vlength (vsub (points ! 3) shaft_mid) = \<bar>head_w\<bar>
       \<and> vlength (vsub (points ! 5) shaft_mid) = \<bar>head_w\<bar>
       \<and> dot side2 dir_n = 0 \<and> dot side2 side = 0
       \<and> (\<not> vlength cross_y < 1 / 1000000 \<longrightarrow> dot side dir_n = 0)
       \<and> (vlength direction \<noteq> 0 \<longrightarrow>
            vlength (vsub tip base) = \<bar>len\<bar>
            \<and> vlength side2 = 1
            \<and> vlength (vsub (points ! 7) shaft_mid) = \<bar>head_w\<bar>
            \<and> vlength (vsub (points ! 9) shaft_mid) = \<bar>head_w\<bar>))"
proof -
  let ?d = "normalized direction"
  have s: "normalized (if vlength (cross ?d (Vector 0 1 0)) < 1 / 1000000 then Vector 1 0 0
                       else cross ?d (Vector 0 1 0)) = arrow_side ?d"
    by (simp only: arrow_side_explicit)
  have s2: "normalized (cross ?d (arrow_side ?d)) = arrow_side2 ?d"
    by (simp only: arrow_side2_def)
  have perp: "\<not> vlength (cross ?d (Vector 0 1 0)) < 1 / 1000000 \<longrightarrow> dot (arrow_side ?d) ?d = 0"
    by (simp add: arrow_side_explicit dot_normalized_left dot_cross_left)
  have tipd: "vlength direction \<noteq> 0 \<longrightarrow> vlength (vsub (vadd base (vmul ?d len)) base) = \<bar>len\<bar>"
    by (simp add: vsub_vadd_cancel vlength_vmul vlength_normalized)
  have w2: "vlength direction \<noteq> 0 \<longrightarrow> vlength (arrow_side2 ?d) = 1"
    by (simp add: vlength_arrow_side2)
  have fixed: "snd (make_solid_arrow base direction len) = vadd base (vmul ?d len)
       \<and> length (fst (make_solid_arrow base direction len)) = 10
       \<and> fst (make_solid_arrow base direction len) ! 0 = base
       \<and> fst (make_solid_arrow base direction len) ! 1 = vadd base (vmul ?d (0.75 * len))
       \<and> fst (make_solid_arrow base direction len) ! 2 = vadd base (vmul ?d len)
       \<and> fst (make_solid_arrow base direction len) ! 3
           = vadd (vadd base (vmul ?d (0.75 * len))) (vmul (arrow_side ?d) (0.12 * len))
       \<and> fst (make_solid_arrow base direction len) ! 4 = vadd base (vmul ?d len)
       \<and> fst (make_solid_arrow base direction len) ! 5
           = vsub (vadd base (vmul ?d (0.75 * len))) (vmul (arrow_side ?d) (0.12 * len))
       \<and> fst (make_solid_arrow base direction len) ! 6 = vadd base (vmul ?d len)
       \<and> fst (make_solid_arrow base direction len) ! 7
           = vadd (vadd base (vmul ?d (0.75 * len))) (vmul (arrow_side2 ?d) (0.12 * len))
       \<and> fst (make_solid_arrow base direction len) ! 8 = vadd base (vmul ?d len)
       \<and> fst (make_solid_arrow base direction len) ! 9
           = vsub (vadd base (vmul ?d (0.75 * len))) (vmul (arrow_side2 ?d) (0.12 * len))"
    unfolding make_solid_arrow_points by simp
  show ?thesis
    unfolding Let_def s s2
    using fixed perp tipd w2 arrow_side2_perpendicular [of ?d]
    by (simp add: vsub_vadd_cancel vlength_vsub_vadd vlength_vmul vlength_arrow_side)
qed

text \<open>Witness for claim C8, amended: the arrow of length 1 from the origin along world X.\<close>

theorem make_solid_arrow_shape_witness:
  "vlength (Vector 1 0 0) \<noteq> 0
   \<and> fst (make_solid_arrow (Vector 0 0 0) (Vector 1 0 0) 1) ! 7 = Vector (3 / 4) (- (3 / 25)) 0
   \<and> vlength (vsub (fst (make_solid_arrow (Vector 0 0 0) (Vector 1 0 0) 1) ! 7) (Vector (3 / 4) 0 0))
       = 3 / 25
   \<and> vlength (vsub (fst (make_solid_arrow (Vector 0 0 0) (Vector 1 0 0) 1) ! 9) (Vector (3 / 4) 0 0))
       = 3 / 25"
proof -
  have nz: "vlength (Vector 1 0 0) \<noteq> 0"
    by (simp add: vlength_unit_x)
  have cy: "cross (Vector 1 0 0) (Vector 0 1 0) = Vector 0 0 1"
    by (simp add: cross_def)
  have l: "vlength (Vector 0 0 1) = 1"
    by (simp add: vlength_def dot_def)
  have sd: "normalized (Vector 0 0 1) = Vector 0 0 1"
    by (simp add: normalized_def l vmul_def)
  have c2: "cross (Vector 1 0 0) (Vector 0 0 1) = Vector 0 (-1) 0"
    by (simp add: cross_def)
  have l2: "vlength (Vector 0 (-1) 0) = 1"
    by (simp add: vlength_def dot_def)
  have sd2: "normalized (Vector 0 (-1) 0) = Vector 0 (-1) 0"
    by (simp add: normalized_def l2 vmul_def)
  have p7: "fst (make_solid_arrow (Vector 0 0 0) (Vector 1 0 0) 1) ! 7 = Vector (3 / 4) (- (3 / 25)) 0"
    using make_solid_arrow_shape [of "Vector 1 0 0" "Vector 0 0 0" 1]
    by (simp add: Let_def normalized_unit_x cy l sd c2 sd2) (simp add: vmul_def vadd_def)
  have d: "vlength (vsub (fst (make_solid_arrow (Vector 0 0 0) (Vector 1 0 0) 1) ! 7) (Vector (3 / 4) 0 0))
       = 3 / 25
     \<and> vlength (vsub (fst (make_solid_arrow (Vector 0 0 0) (Vector 1 0 0) 1) ! 9) (Vector (3 / 4) 0 0))
       = 3 / 25"
  proof -
    have "vlength (vsub (fst (make_solid_arrow (Vector 0 0 0) (Vector 1 0 0) 1) ! 7)
                        (vadd (Vector 0 0 0) (vmul (normalized (Vector 1 0 0)) (0.75 * 1))))
            = \<bar>0.12 * 1\<bar>
        \<and> vlength (vsub (fst (make_solid_arrow (Vector 0 0 0) (Vector 1 0 0) 1) ! 9)
                        (vadd (Vector 0 0 0) (vmul (normalized (Vector 1 0 0)) (0.75 * 1))))
            = \<bar>0.12 * 1\<bar>"
      using make_solid_arrow_shape [of "Vector 1 0 0" "Vector 0 0 0" 1, unfolded Let_def] nz
      by blast
    then show ?thesis
      by (simp add: normalized_unit_x vmul_def vadd_def)
  qed
  from nz p7 d show ?thesis by blast
qed

text \<open>
  Claim C9, as stated: for every direction the side-vector computation never
  normalises a near-zero vector. It fails for the zero direction at the second side
  vector: \<open>side\<close> is world X through the fallback, but the cross product of the
  normalised direction with \<open>side\<close> is the zero vector, and it is normalised into
  \<open>side2\<close>, which has length 0.
\<close>

theorem zero_direction_side2_degenerate:
  "normalized (Vector 0 0 0) = Vector 0 0 0
   \<and> arrow_side (normalized (Vector 0 0 0)) = Vector 1 0 0
   \<and> vlength (cross (normalized (Vector 0 0 0)) (arrow_side (normalized (Vector 0 0 0)))) = 0
   \<and> arrow_side2 (normalized (Vector 0 0 0))
       = normalized (cross (normalized (Vector 0 0 0)) (arrow_side (normalized (Vector 0 0 0))))
   \<and> vlength (arrow_side2 (normalized (Vector 0 0 0))) = 0
   \<and> fst (make_solid_arrow (Vector 0 0 0) (Vector 0 0 0) 1) ! 7
       = vadd (fst (make_solid_arrow (Vector 0 0 0) (Vector 0 0 0) 1) ! 1)
              (vmul (arrow_side2 (normalized (Vector 0 0 0))) (1 * 0.12))"
proof -
  have s: "arrow_side (Vector 0 0 0) = Vector 1 0 0"
    by (simp add: arrow_side_explicit cross_zero_left vlength_zero_vector normalized_unit_x)
  have p: "fst (make_solid_arrow (Vector 0 0 0) (Vector 0 0 0) 1) ! 7
       = vadd (fst (make_solid_arrow (Vector 0 0 0) (Vector 0 0 0) 1) ! 1)
              (vmul (arrow_side2 (normalized (Vector 0 0 0))) (1 * 0.12))"
    by (simp add: make_solid_arrow_def Let_def)
  show ?thesis
    using p
    by (simp add: normalized_zero s cross_zero_left vlength_zero_vector arrow_side2_zero arrow_side2_def)
qed

text \<open>
  Claim C9, amended. For every direction the vector that \<open>make_solid_arrow\<close>
  normalises into \<open>side\<close> is never shorter than \<open>1e-6\<close>: when the cross product of the
  normalised direction with world Y is shorter, world X is taken instead; \<open>side\<close> has
  length 1. For every direction other than the zero vector the vector normalised into
  \<open>side2\<close> is at least half a unit long and \<open>side2\<close> has length 1. These are the
  vectors the wing points 3 and 7 are built from.
\<close>

theorem side_never_degenerate:
  "(let dir_n = normalized direction;
        cross_y = cross dir_n (Vector 0 1 0);
        reference = (if vlength cross_y < 1 / 1000000 then Vector 1 0 0 else cross_y);
        side = normalized reference;
        reference2 = cross dir_n side;
        side2 = normalized reference2;
        points = fst (make_solid_arrow base direction len)
    in (vlength cross_y < 1 / 1000000 \<longrightarrow> side_reference dir_n = Vector 1 0 0)
       \<and> side_reference dir_n = reference
       \<and> 1 / 1000000 \<le> vlength reference
       \<and> vlength side = 1
       \<and> points ! 3 = vadd (points ! 1) (vmul side (len * 0.12))
       \<and> points ! 7 = vadd (points ! 1) (vmul side2 (len * 0.12))
       \<and> (vlength direction \<noteq> 0 \<longrightarrow> 1 / 2 \<le> vlength reference2 \<and> vlength side2 = 1))"
proof -
  let ?d = "normalized direction"
  have r: "(if vlength (cross ?d (Vector 0 1 0)) < 1 / 1000000 then Vector 1 0 0
            else cross ?d (Vector 0 1 0)) = side_reference ?d"
    by (simp add: side_reference_def Let_def)
  have a: "vlength (cross ?d (Vector 0 1 0)) < 1 / 1000000 \<longrightarrow> side_reference ?d = Vector 1 0 0"
    by (simp add: side_reference_def Let_def)
  have p3: "fst (make_solid_arrow base direction len) ! 3
       = vadd (fst (make_solid_arrow base direction len) ! 1) (vmul (arrow_side ?d) (len * 0.12))"
    by (simp add: make_solid_arrow_def Let_def)
  have p7: "fst (make_solid_arrow base direction len) ! 7
       = vadd (fst (make_solid_arrow base direction len) ! 1) (vmul (arrow_side2 ?d) (len * 0.12))"
    by (simp add: make_solid_arrow_def Let_def)
  have n: "vlength direction \<noteq> 0 \<longrightarrow>
             1 / 2 \<le> vlength (cross ?d (arrow_side ?d)) \<and> vlength (arrow_side2 ?d) = 1"
    using side2_reference_length [of direction] vlength_arrow_side2 [of direction] by blast
  show ?thesis
    unfolding Let_def r
    unfolding arrow_side_def [symmetric] arrow_side2_def [symmetric]
    using a p3 p7 n vlength_side_reference [of ?d] vlength_arrow_side [of ?d]
    by blast
qed

text \<open>Witness for claim C9, amended: the direction \<open>(0, 1, 0)\<close>, parallel to world Y.\<close>

theorem side_never_degenerate_witness:
  "vlength (Vector 0 1 0) \<noteq> 0
   \<and> vlength (cross (normalized (Vector 0 1 0)) (Vector 0 1 0)) < 1 / 1000000
   \<and> side_reference (normalized (Vector 0 1 0)) = Vector 1 0 0
   \<and> cross (normalized (Vector 0 1 0)) (normalized (Vector 1 0 0)) = Vector 0 0 (-1)
   \<and> 1 / 2 \<le> vlength (Vector 0 0 (-1))
   \<and> vlength (normalized (Vector 0 0 (-1))) = 1"
proof -
  have l: "vlength (Vector 0 1 0) = 1"
    by (simp add: vlength_def dot_def)
  have n: "normalized (Vector 0 1 0) = Vector 0 1 0"
    by (simp add: normalized_def l vmul_def)
  have c: "vlength (cross (normalized (Vector 0 1 0)) (Vector 0 1 0)) < 1 / 1000000"
    by (simp add: n cross_def vlength_zero_vector)
  have c2: "cross (normalized (Vector 0 1 0)) (normalized (Vector 1 0 0)) = Vector 0 0 (-1)"
    by (simp add: n normalized_unit_x cross_def)
  have nz: "vlength (Vector 0 1 0) \<noteq> 0"
    by (simp add: l)
  have "side_reference (normalized (Vector 0 1 0)) = Vector 1 0 0
        \<and> 1 / 2 \<le> vlength (cross (normalized (Vector 0 1 0))
                                 (normalized (if vlength (cross (normalized (Vector 0 1 0)) (Vector 0 1 0))
                                                  < 1 / 1000000
                                              then Vector 1 0 0
                                              else cross (normalized (Vector 0 1 0)) (Vector 0 1 0))))
        \<and> vlength (normalized (cross (normalized (Vector 0 1 0))
                                 (normalized (if vlength (cross (normalized (Vector 0 1 0)) (Vector 0 1 0))
                                                  < 1 / 1000000
                                              then Vector 1 0 0
                                              else cross (normalized (Vector 0 1 0)) (Vector 0 1 0))))) = 1"
    using side_never_degenerate [of "Vector 0 1 0", unfolded Let_def] c nz by blast
  with c have "side_reference (normalized (Vector 0 1 0)) = Vector 1 0 0
        \<and> 1 / 2 \<le> vlength (cross (normalized (Vector 0 1 0)) (normalized (Vector 1 0 0)))
        \<and> vlength (normalized (cross (normalized (Vector 0 1 0)) (normalized (Vector 1 0 0)))) = 1"
    by simp
  with nz c c2 show ?thesis
    by simp
qed

end
